theory Spec2Isabelle
  imports Main "HOL-Library.Word"
begin

section \<open>The transform-feedback evaluator of osd/glXFBEvaluator.cpp\<close>

text \<open>
  The file drives OpenGL: nearly every line is a GL command. The embedding therefore has
  two layers. The lower one is the part of the GL context the file reads or changes: the
  binding points, the object names handed out, the data stores of buffers and buffer
  textures, and the list of commands issued so far, oldest first. The upper one is the
  file itself, function by function, in explicit state-passing style: each function takes
  the context and returns its result with the context it leaves behind.

  \<^item> A C \<open>int\<close> (also \<open>GLint\<close>, \<open>GLsizei\<close>) is a \<open>32 word\<close>: \<open>+\<close>, \<open>-\<close> and \<open>*\<close> wrap
    around, \<open>sint\<close> reads the signed value. \<open>size_t\<close>, \<open>GLintptr\<close> and \<open>GLsizeiptr\<close> are
    \<open>64 word\<close>, and \<open>scast\<close> is the sign-extending conversion from \<open>int\<close>.
  \<^item> The remainder \<open>a % b\<close> truncates towards zero. With \<open>b = 0\<close>, and for
    \<open>INT_MIN % -1\<close>, it has no value: the function that evaluates it fails with
    \<open>DivisionByZero\<close> or \<open>IntegerOverflow\<close>.
  \<^item> \<open>std::vector::at\<close> on an empty vector throws; the function fails with \<open>OutOfRange\<close>.
  \<^item> A \<open>float\<close> is only copied, never computed with: it is its 32-bit pattern.
  \<^item> A GL object name (\<open>GLuint\<close>) is a natural number. The file generates names, stores
    them, compares them with 0 and hands them back, nothing else.
\<close>

type_synonym c_int = "32 word"
type_synonym GLint = "32 word"
type_synonym GLsizei = "32 word"
type_synonym GLintptr = "64 word"
type_synonym GLsizeiptr = "64 word"
type_synonym GLuint = nat
type_synonym float32 = "32 word"

datatype failure = DivisionByZero | IntegerOverflow | OutOfRange

text \<open>
  The C remainder \<open>a % b\<close> of two \<open>int\<close>s: the sign of the result follows the dividend.
  It is undefined when \<open>b\<close> is 0, and when the quotient \<open>a / b\<close> is not an \<open>int\<close>, which
  is \<open>INT_MIN % -1\<close>; the division instruction traps in both cases.
\<close>

definition c_rem :: "c_int \<Rightarrow> c_int \<Rightarrow> failure + c_int" where
  "c_rem a b =
     (if b = 0 then Inl DivisionByZero
      else if sint a = - (2 ^ 31) \<and> sint b = - 1 then Inl IntegerOverflow
      else Inr (word_of_int (sgn (sint a) * (\<bar>sint a\<bar> mod \<bar>sint b\<bar>))))"

text \<open>\<open>sizeof(float)\<close>, \<open>sizeof(int)\<close> and \<open>sizeof(T)\<close> of every vector uploaded: 4 bytes.\<close>

definition sizeof32 :: nat where
  "sizeof32 = 4"

subsection \<open>Decimal output of an int (\<open>operator<<\<close>, \<open>%d\<close>)\<close>

definition digit_char :: "nat \<Rightarrow> char" where
  "digit_char d = char_of (48 + d)"

function digits_of_nat :: "nat \<Rightarrow> string" where
  "digits_of_nat n =
     (if n < 10 then [digit_char n] else digits_of_nat (n div 10) @ [digit_char (n mod 10)])"
  by pat_completeness auto
termination
  by (relation "measure (\<lambda>n. n)") auto

declare digits_of_nat.simps [simp del]

definition show_int :: "int \<Rightarrow> string" where
  "show_int i = (if i < 0 then CHR ''-'' # digits_of_nat (nat (- i)) else digits_of_nat (nat i))"

subsection \<open>The GL commands the file issues\<close>

datatype GLenum =
    GL_ARRAY_BUFFER | GL_TEXTURE_BUFFER | GL_TRANSFORM_FEEDBACK_BUFFER
  | GL_ARRAY_BUFFER_BINDING | GL_TEXTURE_BINDING_BUFFER
  | GL_R32UI | GL_R32I | GL_R32F
  | GL_STATIC_DRAW | GL_VERTEX_SHADER | GL_INTERLEAVED_ATTRIBS | GL_LINK_STATUS
  | GL_RASTERIZER_DISCARD | GL_POINTS | GL_UNSIGNED_INT | GL_FLOAT

text \<open>
  One constructor per GL entry point, with the arguments of the call. A command that
  returns a name (\<open>glGen*\<close>, \<open>glCreate*\<close>) carries the name returned. \<open>glActiveTexture\<close>
  carries the unit index \<open>i\<close> of its argument \<open>GL_TEXTURE0 + i\<close>. A pointer argument is
  the array it points to. The three sync commands are the ones a fence-based
  \<open>Synchronize\<close> would issue; the file issues none of them.
\<close>

datatype (plugins only: code) gl_call =
    GenBuffers GLuint
  | GenTextures GLuint
  | GenVertexArrays GLuint
  | DeleteBuffers GLuint
  | DeleteTextures GLuint
  | DeleteVertexArrays GLuint
  | NamedBufferDataEXT GLuint GLsizeiptr "32 word list" GLenum
  | TextureBufferEXT GLuint GLenum GLenum GLuint
  | GetIntegerv GLenum
  | BindBuffer GLenum GLuint
  | BufferData GLenum GLsizeiptr "32 word list" GLenum
  | BindTexture GLenum GLuint
  | TexBuffer GLenum GLenum GLuint
  | CreateProgram GLuint
  | CreateShader GLenum GLuint
  | ShaderSource GLuint GLsizei "string list"
  | CompileShader GLuint
  | AttachShader GLuint GLuint
  | TransformFeedbackVaryings GLuint GLsizei "string list" GLenum
  | LinkProgram GLuint
  | GetProgramiv GLuint GLenum
  | GetShaderInfoLog GLuint nat
  | GetProgramInfoLog GLuint nat
  | DeleteProgram GLuint
  | DeleteShader GLuint
  | GetUniformLocation GLuint string
  | Finish
  | FenceSync
  | ClientWaitSync
  | WaitSync
  | Uniform1i GLint GLint
  | Uniform4iv GLint GLsizei "(GLint \<times> GLint \<times> GLint \<times> GLint) list"
  | ActiveTexture nat
  | Enable GLenum
  | Disable GLenum
  | UseProgram GLuint
  | BindVertexArray GLuint
  | EnableVertexAttribArray nat
  | DisableVertexAttribArray nat
  | VertexAttribIPointer nat nat GLenum nat nat
  | VertexAttribPointer nat nat GLenum bool nat nat
  | BindBufferRange GLenum nat GLuint GLintptr GLsizeiptr
  | BeginTransformFeedback GLenum
  | DrawArrays GLenum GLint GLsizei
  | EndTransformFeedback


subsection \<open>The library's error channel\<close>

text \<open>
  The enumeration of far/error.h (the header is not among the sources; this file uses
  \<open>FAR_RUNTIME_ERROR\<close> only).
\<close>

datatype ErrorType =
    FAR_NO_ERROR | FAR_FATAL_ERROR | FAR_INTERNAL_CODING_ERROR | FAR_CODING_ERROR
  | FAR_RUNTIME_ERROR

subsection \<open>The context\<close>

text \<open>
  \<open>calls\<close> is the command stream, oldest first. \<open>next_name\<close> is the last object name
  handed out; a new name is its successor, so it is fresh and never 0.
  \<open>far_errors\<close> lists the calls of \<open>Far::Error\<close>, oldest first. The other fields are GL
  state: the active texture unit, the buffer-texture binding of every unit, the
  \<open>GL_ARRAY_BUFFER\<close> binding, the generic and the indexed
  \<open>GL_TRANSFORM_FEEDBACK_BUFFER\<close> bindings, the program in use, the vertex array bound,
  the \<open>GL_RASTERIZER_DISCARD\<close> switch, the vertex array names alive, the data store of
  every buffer (by elements of 4 bytes) and the format and buffer attached to every
  buffer texture.
\<close>

record world =
  calls :: "gl_call list"
  next_name :: nat
  far_errors :: "(ErrorType \<times> string) list"
  active_texture :: nat
  texture_binding_buffer :: "nat \<Rightarrow> GLuint"
  array_buffer_binding :: GLuint
  transform_feedback_buffer_binding :: GLuint
  transform_feedback_buffer_range :: "nat \<Rightarrow> GLuint \<times> GLintptr \<times> GLsizeiptr"
  current_program :: GLuint
  vertex_array_binding :: GLuint
  rasterizer_discard :: bool
  vertex_arrays :: "GLuint set"
  buffer_store :: "GLuint \<Rightarrow> 32 word list option"
  texture_store :: "GLuint \<Rightarrow> (GLenum \<times> GLuint) option"

text \<open>
  What the driver answers and the program cannot know: whether the direct-state-access
  entry points exist, whether a program links, the two info logs, and where a uniform
  lives (\<open>-1\<close>: nowhere).
\<close>

record driver =
  direct_state_access :: bool
  link_status :: "GLuint \<Rightarrow> bool"
  shader_info_log :: "GLuint \<Rightarrow> string"
  program_info_log :: "GLuint \<Rightarrow> string"
  uniform_location :: "GLuint \<Rightarrow> string \<Rightarrow> GLint"

definition issue :: "gl_call \<Rightarrow> world \<Rightarrow> world" where
  "issue c s = s\<lparr>calls := calls s @ [c]\<rparr>"

text \<open>
  Modelled from the spec: \<open>Far::Error\<close> (far/error.cpp is not among the sources). The
  spec says only that errors are forwarded; the model keeps every call, with its error
  type and its message.
\<close>

definition Far_Error :: "ErrorType \<Rightarrow> string \<Rightarrow> world \<Rightarrow> world" where
  "Far_Error err message s = s\<lparr>far_errors := far_errors s @ [(err, message)]\<rparr>"

subsection \<open>The commands, as state transformers\<close>

definition glGenBuffers :: "world \<Rightarrow> GLuint \<times> world" where
  "glGenBuffers s =
     (let n = Suc (next_name s) in (n, issue (GenBuffers n) (s\<lparr>next_name := n\<rparr>)))"

definition glGenTextures :: "world \<Rightarrow> GLuint \<times> world" where
  "glGenTextures s =
     (let n = Suc (next_name s) in (n, issue (GenTextures n) (s\<lparr>next_name := n\<rparr>)))"

definition glGenVertexArrays :: "world \<Rightarrow> GLuint \<times> world" where
  "glGenVertexArrays s =
     (let n = Suc (next_name s)
      in (n, issue (GenVertexArrays n)
               (s\<lparr>next_name := n, vertex_arrays := insert n (vertex_arrays s)\<rparr>)))"

definition glCreateProgram :: "world \<Rightarrow> GLuint \<times> world" where
  "glCreateProgram s =
     (let n = Suc (next_name s) in (n, issue (CreateProgram n) (s\<lparr>next_name := n\<rparr>)))"

definition glCreateShader :: "GLenum \<Rightarrow> world \<Rightarrow> GLuint \<times> world" where
  "glCreateShader type s =
     (let n = Suc (next_name s) in (n, issue (CreateShader type n) (s\<lparr>next_name := n\<rparr>)))"

text \<open>
  \<open>glGetIntegerv\<close> for the two bindings the file asks for; the buffer-texture binding is
  that of the active unit.
\<close>

definition glGetIntegerv :: "GLenum \<Rightarrow> world \<Rightarrow> GLuint \<times> world" where
  "glGetIntegerv pname s =
     ((if pname = GL_ARRAY_BUFFER_BINDING then array_buffer_binding s
       else if pname = GL_TEXTURE_BINDING_BUFFER
         then texture_binding_buffer s (active_texture s)
       else 0),
      issue (GetIntegerv pname) s)"

definition glBindBuffer :: "GLenum \<Rightarrow> GLuint \<Rightarrow> world \<Rightarrow> world" where
  "glBindBuffer target buffer s =
     issue (BindBuffer target buffer)
       (if target = GL_ARRAY_BUFFER then s\<lparr>array_buffer_binding := buffer\<rparr>
        else if target = GL_TRANSFORM_FEEDBACK_BUFFER
          then s\<lparr>transform_feedback_buffer_binding := buffer\<rparr>
        else s)"

text \<open>
  The store a buffer gets from \<open>nbytes\<close> bytes read at \<open>data\<close>: the first \<open>nbytes / 4\<close>
  elements. GL refuses a negative size and leaves the buffer as it was.
\<close>

definition stored :: "GLsizeiptr \<Rightarrow> 32 word list \<Rightarrow> 32 word list option" where
  "stored nbytes data =
     (if sint nbytes < 0 then None else Some (take (nat (sint nbytes) div sizeof32) data))"

definition glBufferData :: "GLenum \<Rightarrow> GLsizeiptr \<Rightarrow> 32 word list \<Rightarrow> GLenum \<Rightarrow> world \<Rightarrow> world" where
  "glBufferData target nbytes data usage s =
     issue (BufferData target nbytes data usage)
       (if target = GL_ARRAY_BUFFER \<and> array_buffer_binding s \<noteq> 0 \<and> stored nbytes data \<noteq> None
        then s\<lparr>buffer_store := (buffer_store s)(array_buffer_binding s := stored nbytes data)\<rparr>
        else s)"

definition glNamedBufferDataEXT :: "GLuint \<Rightarrow> GLsizeiptr \<Rightarrow> 32 word list \<Rightarrow> GLenum \<Rightarrow> world \<Rightarrow> world" where
  "glNamedBufferDataEXT buffer nbytes data usage s =
     issue (NamedBufferDataEXT buffer nbytes data usage)
       (if buffer \<noteq> 0 \<and> stored nbytes data \<noteq> None
        then s\<lparr>buffer_store := (buffer_store s)(buffer := stored nbytes data)\<rparr>
        else s)"

definition glBindTexture :: "GLenum \<Rightarrow> GLuint \<Rightarrow> world \<Rightarrow> world" where
  "glBindTexture target texture s =
     issue (BindTexture target texture)
       (if target = GL_TEXTURE_BUFFER
        then s\<lparr>texture_binding_buffer :=
                 (texture_binding_buffer s)(active_texture s := texture)\<rparr>
        else s)"

definition glTexBuffer :: "GLenum \<Rightarrow> GLenum \<Rightarrow> GLuint \<Rightarrow> world \<Rightarrow> world" where
  "glTexBuffer target internalformat buffer s =
     issue (TexBuffer target internalformat buffer)
       (if target = GL_TEXTURE_BUFFER \<and> texture_binding_buffer s (active_texture s) \<noteq> 0
        then s\<lparr>texture_store :=
                 (texture_store s)
                   (texture_binding_buffer s (active_texture s) \<mapsto> (internalformat, buffer))\<rparr>
        else s)"

definition glTextureBufferEXT :: "GLuint \<Rightarrow> GLenum \<Rightarrow> GLenum \<Rightarrow> GLuint \<Rightarrow> world \<Rightarrow> world" where
  "glTextureBufferEXT texture target internalformat buffer s =
     issue (TextureBufferEXT texture target internalformat buffer)
       (if target = GL_TEXTURE_BUFFER \<and> texture \<noteq> 0
        then s\<lparr>texture_store := (texture_store s)(texture \<mapsto> (internalformat, buffer))\<rparr>
        else s)"

text \<open>
  Deleting a buffer frees its name and resets the bindings of this context that hold it.
  Its data store lives on while a buffer texture refers to it (the file relies on that:
  it deletes every upload buffer at once), so \<open>buffer_store\<close> keeps it.
\<close>

definition glDeleteBuffers :: "GLuint \<Rightarrow> world \<Rightarrow> world" where
  "glDeleteBuffers buffer s =
     issue (DeleteBuffers buffer)
       (if buffer = 0 then s
        else s\<lparr>array_buffer_binding :=
                 (if array_buffer_binding s = buffer then 0 else array_buffer_binding s),
               transform_feedback_buffer_binding :=
                 (if transform_feedback_buffer_binding s = buffer then 0
                  else transform_feedback_buffer_binding s)\<rparr>)"

definition glDeleteTextures :: "GLuint \<Rightarrow> world \<Rightarrow> world" where
  "glDeleteTextures texture s =
     issue (DeleteTextures texture)
       (if texture = 0 then s
        else s\<lparr>texture_binding_buffer :=
                 (\<lambda>unit. if texture_binding_buffer s unit = texture then 0
                          else texture_binding_buffer s unit),
               texture_store := (texture_store s)(texture := None)\<rparr>)"

definition glDeleteVertexArrays :: "GLuint \<Rightarrow> world \<Rightarrow> world" where
  "glDeleteVertexArrays array s =
     issue (DeleteVertexArrays array)
       (if array = 0 then s
        else s\<lparr>vertex_array_binding :=
                 (if vertex_array_binding s = array then 0 else vertex_array_binding s),
               vertex_arrays := vertex_arrays s - {array}\<rparr>)"

definition glBindVertexArray :: "GLuint \<Rightarrow> world \<Rightarrow> world" where
  "glBindVertexArray array s = issue (BindVertexArray array) (s\<lparr>vertex_array_binding := array\<rparr>)"

definition glActiveTexture :: "nat \<Rightarrow> world \<Rightarrow> world" where
  "glActiveTexture unit s = issue (ActiveTexture unit) (s\<lparr>active_texture := unit\<rparr>)"

definition glUseProgram :: "GLuint \<Rightarrow> world \<Rightarrow> world" where
  "glUseProgram program s = issue (UseProgram program) (s\<lparr>current_program := program\<rparr>)"

definition glEnable :: "GLenum \<Rightarrow> world \<Rightarrow> world" where
  "glEnable cap s =
     issue (Enable cap) (if cap = GL_RASTERIZER_DISCARD then s\<lparr>rasterizer_discard := True\<rparr> else s)"

definition glDisable :: "GLenum \<Rightarrow> world \<Rightarrow> world" where
  "glDisable cap s =
     issue (Disable cap) (if cap = GL_RASTERIZER_DISCARD then s\<lparr>rasterizer_discard := False\<rparr> else s)"

text \<open>
  \<open>glBindBufferRange\<close> sets the indexed binding point and the generic one;
  \<open>glBindBuffer\<close> above sets the generic one only.
\<close>

definition glBindBufferRange :: "GLenum \<Rightarrow> nat \<Rightarrow> GLuint \<Rightarrow> GLintptr \<Rightarrow> GLsizeiptr \<Rightarrow> world \<Rightarrow> world" where
  "glBindBufferRange target index buffer offset nbytes s =
     issue (BindBufferRange target index buffer offset nbytes)
       (if target = GL_TRANSFORM_FEEDBACK_BUFFER
        then s\<lparr>transform_feedback_buffer_binding := buffer,
               transform_feedback_buffer_range :=
                 (transform_feedback_buffer_range s)(index := (buffer, offset, nbytes))\<rparr>
        else s)"


text \<open>The commands whose effect on the state above is nil: they are recorded only.\<close>

definition glShaderSource :: "GLuint \<Rightarrow> GLsizei \<Rightarrow> string list \<Rightarrow> world \<Rightarrow> world" where
  "glShaderSource shader count strings s = issue (ShaderSource shader count strings) s"

definition glCompileShader :: "GLuint \<Rightarrow> world \<Rightarrow> world" where
  "glCompileShader shader s = issue (CompileShader shader) s"

definition glAttachShader :: "GLuint \<Rightarrow> GLuint \<Rightarrow> world \<Rightarrow> world" where
  "glAttachShader program shader s = issue (AttachShader program shader) s"

definition glTransformFeedbackVaryings :: "GLuint \<Rightarrow> GLsizei \<Rightarrow> string list \<Rightarrow> GLenum \<Rightarrow> world \<Rightarrow> world" where
  "glTransformFeedbackVaryings program count varyings bufferMode s =
     issue (TransformFeedbackVaryings program count varyings bufferMode) s"

definition glLinkProgram :: "GLuint \<Rightarrow> world \<Rightarrow> world" where
  "glLinkProgram program s = issue (LinkProgram program) s"

definition glDeleteProgram :: "GLuint \<Rightarrow> world \<Rightarrow> world" where
  "glDeleteProgram program s = issue (DeleteProgram program) s"

definition glDeleteShader :: "GLuint \<Rightarrow> world \<Rightarrow> world" where
  "glDeleteShader shader s = issue (DeleteShader shader) s"

definition glFinish :: "world \<Rightarrow> world" where
  "glFinish s = issue Finish s"

definition glUniform1i :: "GLint \<Rightarrow> GLint \<Rightarrow> world \<Rightarrow> world" where
  "glUniform1i location v0 s = issue (Uniform1i location v0) s"

definition glUniform4iv :: "GLint \<Rightarrow> GLsizei \<Rightarrow> (GLint \<times> GLint \<times> GLint \<times> GLint) list \<Rightarrow> world \<Rightarrow> world" where
  "glUniform4iv location count v s = issue (Uniform4iv location count v) s"

definition glEnableVertexAttribArray :: "nat \<Rightarrow> world \<Rightarrow> world" where
  "glEnableVertexAttribArray index s = issue (EnableVertexAttribArray index) s"

definition glDisableVertexAttribArray :: "nat \<Rightarrow> world \<Rightarrow> world" where
  "glDisableVertexAttribArray index s = issue (DisableVertexAttribArray index) s"

definition glVertexAttribIPointer :: "nat \<Rightarrow> nat \<Rightarrow> GLenum \<Rightarrow> nat \<Rightarrow> nat \<Rightarrow> world \<Rightarrow> world" where
  "glVertexAttribIPointer index n type stride_bytes pointer s =
     issue (VertexAttribIPointer index n type stride_bytes pointer) s"

definition glVertexAttribPointer :: "nat \<Rightarrow> nat \<Rightarrow> GLenum \<Rightarrow> bool \<Rightarrow> nat \<Rightarrow> nat \<Rightarrow> world \<Rightarrow> world" where
  "glVertexAttribPointer index n type normalized stride_bytes pointer s =
     issue (VertexAttribPointer index n type normalized stride_bytes pointer) s"

definition glBeginTransformFeedback :: "GLenum \<Rightarrow> world \<Rightarrow> world" where
  "glBeginTransformFeedback primitiveMode s = issue (BeginTransformFeedback primitiveMode) s"

definition glDrawArrays :: "GLenum \<Rightarrow> GLint \<Rightarrow> GLsizei \<Rightarrow> world \<Rightarrow> world" where
  "glDrawArrays mode first count s = issue (DrawArrays mode first count) s"

definition glEndTransformFeedback :: "world \<Rightarrow> world" where
  "glEndTransformFeedback s = issue EndTransformFeedback s"

text \<open>
  The queries the driver answers. An info log is copied into a buffer of \<open>bufSize\<close>
  bytes with its terminating 0, so at most \<open>bufSize - 1\<close> characters of it arrive.
\<close>

definition glGetProgramiv :: "driver \<Rightarrow> GLuint \<Rightarrow> GLenum \<Rightarrow> world \<Rightarrow> bool \<times> world" where
  "glGetProgramiv drv program pname s =
     (pname = GL_LINK_STATUS \<and> link_status drv program, issue (GetProgramiv program pname) s)"

definition glGetShaderInfoLog :: "driver \<Rightarrow> GLuint \<Rightarrow> nat \<Rightarrow> world \<Rightarrow> string \<times> world" where
  "glGetShaderInfoLog drv shader bufSize s =
     (take (bufSize - 1) (shader_info_log drv shader), issue (GetShaderInfoLog shader bufSize) s)"

definition glGetProgramInfoLog :: "driver \<Rightarrow> GLuint \<Rightarrow> nat \<Rightarrow> world \<Rightarrow> string \<times> world" where
  "glGetProgramInfoLog drv program bufSize s =
     (take (bufSize - 1) (program_info_log drv program),
      issue (GetProgramInfoLog program bufSize) s)"

definition glGetUniformLocation :: "driver \<Rightarrow> GLuint \<Rightarrow> string \<Rightarrow> world \<Rightarrow> GLint \<times> world" where
  "glGetUniformLocation drv program name s =
     (uniform_location drv program name, issue (GetUniformLocation program name) s)"

section \<open>The file\<close>

subsection \<open>Data\<close>

text \<open>
  \<open>VertexBufferDescriptor\<close>: three ints (the field \<open>length\<close> is \<open>length'\<close> here).
\<close>

record VertexBufferDescriptor =
  offset :: c_int
  length' :: c_int
  stride :: c_int

text \<open>
  What the constructor reads of a \<open>Far::StencilTable\<close> (far/stencilTable.h is not among
  the sources): the results of its five getters.
\<close>

record StencilTable =
  GetNumStencils :: c_int
  GetSizes :: "32 word list"
  GetOffsets :: "32 word list"
  GetControlIndices :: "32 word list"
  GetWeights :: "float32 list"

record GLStencilTableTBO =
  sizes :: GLuint
  offsets :: GLuint
  indices :: GLuint
  weights :: GLuint
  numStencils :: c_int

text \<open>
  The two kernel structs of the evaluator (osd/glXFBEvaluator.h is not among the
  sources). One record has the fields this file reads or writes of either.
\<close>

record Kernel =
  program :: GLuint
  uniformSrcBufferTexture :: GLint
  uniformSrcOffset :: GLint
  uniformSizesTexture :: GLint
  uniformOffsetsTexture :: GLint
  uniformIndicesTexture :: GLint
  uniformWeightsTexture :: GLint
  uniformStart :: GLint
  uniformEnd :: GLint
  uniformPatchArray :: GLint
  uniformPatchParamTexture :: GLint
  uniformPatchIndexTexture :: GLint

record GLXFBEvaluator =
  srcBufferTexture :: GLuint
  stencilKernel :: Kernel
  patchKernel :: Kernel

definition newline :: string where
  "newline = [CHR 0x0A]"

subsection \<open>createGLTextureBuffer\<close>

text \<open>
  \<open>size\<close> is \<open>static_cast<int>(src.size()*sizeof(T))\<close>: the low 32 bits of the byte
  count. \<open>src.at(0)\<close> throws on an empty vector, before any GL command.
\<close>

definition createGLTextureBuffer :: "driver \<Rightarrow> 32 word list \<Rightarrow> GLenum \<Rightarrow> world \<Rightarrow> (failure + GLuint) \<times> world" where
  "createGLTextureBuffer drv src type s =
     (let nbytes = (word_of_nat (length src * sizeof32) :: GLint) in
      if src = [] then (Inl OutOfRange, s)
      else
        let (buffer, s) = glGenBuffers s;
            (devicePtr, s) = glGenTextures s;
            s = (if direct_state_access drv then
                   let s = glNamedBufferDataEXT buffer (scast nbytes) src GL_STATIC_DRAW s;
                       s = glTextureBufferEXT devicePtr GL_TEXTURE_BUFFER type buffer s
                   in s
                 else
                   let (prev, s) = glGetIntegerv GL_ARRAY_BUFFER_BINDING s;
                       s = glBindBuffer GL_ARRAY_BUFFER buffer s;
                       s = glBufferData GL_ARRAY_BUFFER (scast nbytes) src GL_STATIC_DRAW s;
                       s = glBindBuffer GL_ARRAY_BUFFER prev s;
                       (prev, s) = glGetIntegerv GL_TEXTURE_BINDING_BUFFER s;
                       s = glBindTexture GL_TEXTURE_BUFFER devicePtr s;
                       s = glTexBuffer GL_TEXTURE_BUFFER type buffer s;
                       s = glBindTexture GL_TEXTURE_BUFFER prev s
                   in s);
            s = glDeleteBuffers buffer s
        in (Inr devicePtr, s))"

subsection \<open>GLStencilTableTBO\<close>

text \<open>
  The constructor. An upload that throws ends it there: the object does not come to
  exist, and the textures made so far stay in the context.
\<close>

definition new_GLStencilTableTBO :: "driver \<Rightarrow> StencilTable \<Rightarrow> world \<Rightarrow> (failure + GLStencilTableTBO) \<times> world" where
  "new_GLStencilTableTBO drv stencilTable s =
     (let n = GetNumStencils stencilTable in
      if 0 < sint n then
        (case createGLTextureBuffer drv (GetSizes stencilTable) GL_R32UI s of
           (Inl e, s) \<Rightarrow> (Inl e, s)
         | (Inr t_sizes, s) \<Rightarrow>
        (case createGLTextureBuffer drv (GetOffsets stencilTable) GL_R32I s of
           (Inl e, s) \<Rightarrow> (Inl e, s)
         | (Inr t_offsets, s) \<Rightarrow>
        (case createGLTextureBuffer drv (GetControlIndices stencilTable) GL_R32I s of
           (Inl e, s) \<Rightarrow> (Inl e, s)
         | (Inr t_indices, s) \<Rightarrow>
        (case createGLTextureBuffer drv (GetWeights stencilTable) GL_R32F s of
           (Inl e, s) \<Rightarrow> (Inl e, s)
         | (Inr t_weights, s) \<Rightarrow>
             (Inr \<lparr>sizes = t_sizes, offsets = t_offsets, indices = t_indices,
                   weights = t_weights, numStencils = n\<rparr>, s)))))
      else
        (Inr \<lparr>sizes = 0, offsets = 0, indices = 0, weights = 0, numStencils = n\<rparr>, s))"

text \<open>The destructor, in the order of the source: sizes, offsets, weights, indices.\<close>

definition delete_GLStencilTableTBO :: "GLStencilTableTBO \<Rightarrow> world \<Rightarrow> world" where
  "delete_GLStencilTableTBO this s =
     (let s = (if sizes this \<noteq> 0 then glDeleteTextures (sizes this) s else s);
          s = (if offsets this \<noteq> 0 then glDeleteTextures (offsets this) s else s);
          s = (if weights this \<noteq> 0 then glDeleteTextures (weights this) s else s);
          s = (if indices this \<noteq> 0 then glDeleteTextures (indices this) s else s)
      in s)"


subsection \<open>GLXFBEvaluator\<close>

definition new_GLXFBEvaluator :: GLXFBEvaluator where
  "new_GLXFBEvaluator =
     (let zero = \<lparr>program = 0, uniformSrcBufferTexture = 0, uniformSrcOffset = 0,
                   uniformSizesTexture = 0, uniformOffsetsTexture = 0,
                   uniformIndicesTexture = 0, uniformWeightsTexture = 0, uniformStart = 0,
                   uniformEnd = 0, uniformPatchArray = 0, uniformPatchParamTexture = 0,
                   uniformPatchIndexTexture = 0\<rparr>
      in \<lparr>srcBufferTexture = 0, stencilKernel = zero, patchKernel = zero\<rparr>)"

definition delete_GLXFBEvaluator :: "GLXFBEvaluator \<Rightarrow> world \<Rightarrow> world" where
  "delete_GLXFBEvaluator this s =
     (let s = (if program (stencilKernel this) \<noteq> 0
               then glDeleteProgram (program (stencilKernel this)) s else s);
          s = (if program (patchKernel this) \<noteq> 0
               then glDeleteProgram (program (patchKernel this)) s else s);
          s = (if srcBufferTexture this \<noteq> 0
               then glDeleteTextures (srcBufferTexture this) s else s)
      in s)"

subsection \<open>compileKernel\<close>

text \<open>
  The three loops that fill \<open>outputs\<close>. The counter \<open>i\<close> is an integer: it stays below
  the bound, itself an \<open>int\<close>, so \<open>++i\<close> never overflows.
  \<open>snprintf\<close> writes at most 31 characters into \<open>attrName[32]\<close>.
\<close>

definition attrName :: "int \<Rightarrow> string" where
  "attrName i = take 31 (''outVertexBuffer['' @ show_int i @ '']'')"

function push_skips :: "int \<Rightarrow> int \<Rightarrow> string list \<Rightarrow> string list" where
  "push_skips i n outputs =
     (if i < n then push_skips (i + 1) n (outputs @ [''gl_SkipComponents1'']) else outputs)"
  by pat_completeness auto
termination
  by (relation "measure (\<lambda>(i, n, outputs). nat (n - i))") auto

declare push_skips.simps [simp del]

function push_attrs :: "int \<Rightarrow> int \<Rightarrow> string list \<Rightarrow> string list" where
  "push_attrs i n outputs =
     (if i < n then push_attrs (i + 1) n (outputs @ [attrName i]) else outputs)"
  by pat_completeness auto
termination
  by (relation "measure (\<lambda>(i, n, outputs). nat (n - i))") auto

declare push_attrs.simps [simp del]

text \<open>
  \<open>shaderSource\<close> is the text of osd/glslXFBKernel.gen.h, a generated header that is not
  among the sources: a parameter. \<open>program = 0\<close> after a failed link is the result
  \<open>Inr 0\<close>.
\<close>

definition compileKernel :: "driver \<Rightarrow> string \<Rightarrow> VertexBufferDescriptor \<Rightarrow> VertexBufferDescriptor \<Rightarrow> string \<Rightarrow> world \<Rightarrow> (failure + GLuint) \<times> world" where
  "compileKernel drv shaderSource srcDesc dstDesc kernelDefine s =
     (let (program, s) = glCreateProgram s;
          (shader, s) = glCreateShader GL_VERTEX_SHADER s;
          defineStr = ''#define LENGTH '' @ show_int (sint (length' srcDesc)) @ newline
                    @ ''#define SRC_STRIDE '' @ show_int (sint (stride srcDesc)) @ newline
                    @ kernelDefine @ newline;
          shaderSources = [''#version 410'' @ newline, defineStr, shaderSource];
          s = glShaderSource shader 3 shaderSources s;
          s = glCompileShader shader s;
          s = glAttachShader program shader s
      in case c_rem (offset dstDesc) (stride dstDesc) of
           Inl e \<Rightarrow> (Inl e, s)
         | Inr primvarOffset \<Rightarrow>
             let outputs = push_skips 0 (sint primvarOffset) [];
                 outputs = push_attrs 0 (sint (length' dstDesc)) outputs;
                 outputs = push_skips (sint (primvarOffset + length' dstDesc))
                             (sint (stride dstDesc)) outputs;
                 pOutputs = outputs;
                 s = glTransformFeedbackVaryings program (word_of_nat (length outputs))
                       pOutputs GL_INTERLEAVED_ATTRIBS s;
                 s = glLinkProgram program s;
                 (linked, s) = glGetProgramiv drv program GL_LINK_STATUS s
             in if \<not> linked then
                  let (buffer, s) = glGetShaderInfoLog drv shader 1024 s;
                      s = Far_Error FAR_RUNTIME_ERROR buffer s;
                      (buffer, s) = glGetProgramInfoLog drv program 1024 s;
                      s = Far_Error FAR_RUNTIME_ERROR buffer s;
                      s = glDeleteProgram program s;
                      s = glDeleteShader shader s
                  in (Inr 0, s)
                else (Inr program, glDeleteShader shader s))"

subsection \<open>Compile\<close>

text \<open>
  The two blocks of the source under the comment "cache uniform locations", one per
  kernel: each asks the driver for the locations in the order of the source and stores
  them in the kernel.
\<close>

definition cacheStencilUniformLocations :: "driver \<Rightarrow> Kernel \<Rightarrow> world \<Rightarrow> Kernel \<times> world" where
  "cacheStencilUniformLocations drv k s =
     (let (l, s) = glGetUniformLocation drv (program k) ''vertexBuffer'' s;
          k = k\<lparr>uniformSrcBufferTexture := l\<rparr>;
          (l, s) = glGetUniformLocation drv (program k) ''srcOffset'' s;
          k = k\<lparr>uniformSrcOffset := l\<rparr>;
          (l, s) = glGetUniformLocation drv (program k) ''sizes'' s;
          k = k\<lparr>uniformSizesTexture := l\<rparr>;
          (l, s) = glGetUniformLocation drv (program k) ''offsets'' s;
          k = k\<lparr>uniformOffsetsTexture := l\<rparr>;
          (l, s) = glGetUniformLocation drv (program k) ''indices'' s;
          k = k\<lparr>uniformIndicesTexture := l\<rparr>;
          (l, s) = glGetUniformLocation drv (program k) ''weights'' s;
          k = k\<lparr>uniformWeightsTexture := l\<rparr>;
          (l, s) = glGetUniformLocation drv (program k) ''batchStart'' s;
          k = k\<lparr>uniformStart := l\<rparr>;
          (l, s) = glGetUniformLocation drv (program k) ''batchEnd'' s;
          k = k\<lparr>uniformEnd := l\<rparr>
      in (k, s))"

definition cachePatchUniformLocations :: "driver \<Rightarrow> Kernel \<Rightarrow> world \<Rightarrow> Kernel \<times> world" where
  "cachePatchUniformLocations drv k s =
     (let (l, s) = glGetUniformLocation drv (program k) ''vertexBuffer'' s;
          k = k\<lparr>uniformSrcBufferTexture := l\<rparr>;
          (l, s) = glGetUniformLocation drv (program k) ''srcOffset'' s;
          k = k\<lparr>uniformSrcOffset := l\<rparr>;
          (l, s) = glGetUniformLocation drv (program k) ''patchArray'' s;
          k = k\<lparr>uniformPatchArray := l\<rparr>;
          (l, s) = glGetUniformLocation drv (program k) ''patchParamBuffer'' s;
          k = k\<lparr>uniformPatchParamTexture := l\<rparr>;
          (l, s) = glGetUniformLocation drv (program k) ''patchIndexBuffer'' s;
          k = k\<lparr>uniformPatchIndexTexture := l\<rparr>
      in (k, s))"

text \<open>
  \<open>Compile\<close> changes the evaluator: it returns the evaluator it leaves with its result.
  When \<open>compileKernel\<close> fails, the assignment of its result has not happened. The function
  has three parts, each under its comment in the source ("create stencil kernel", "create
  patch kernel", "create a texture for input buffer"); the first two return false when
  their program is 0. They are modelled one by one: the result \<open>Inr False\<close> of a part is
  the \<open>return false\<close> of the source, \<open>Inr True\<close> is "go on".
\<close>

definition createStencilKernel :: "driver \<Rightarrow> string \<Rightarrow> VertexBufferDescriptor \<Rightarrow> VertexBufferDescriptor \<Rightarrow> GLXFBEvaluator \<Rightarrow> world \<Rightarrow> (failure + bool) \<times> GLXFBEvaluator \<times> world" where
  "createStencilKernel drv shaderSource srcDesc dstDesc this s =
     (let s = (if program (stencilKernel this) \<noteq> 0
               then glDeleteProgram (program (stencilKernel this)) s else s)
      in case compileKernel drv shaderSource srcDesc dstDesc
                ''#define OPENSUBDIV_GLSL_XFB_KERNEL_EVAL_STENCILS'' s of
           (Inl e, s) \<Rightarrow> (Inl e, this, s)
         | (Inr p, s) \<Rightarrow>
             let this = this\<lparr>stencilKernel := (stencilKernel this)\<lparr>program := p\<rparr>\<rparr>
             in if program (stencilKernel this) = 0 then (Inr False, this, s)
                else
                  let (k, s) = cacheStencilUniformLocations drv (stencilKernel this) s;
                      this = this\<lparr>stencilKernel := k\<rparr>
                  in (Inr True, this, s))"

definition createPatchKernel :: "driver \<Rightarrow> string \<Rightarrow> VertexBufferDescriptor \<Rightarrow> VertexBufferDescriptor \<Rightarrow> GLXFBEvaluator \<Rightarrow> world \<Rightarrow> (failure + bool) \<times> GLXFBEvaluator \<times> world" where
  "createPatchKernel drv shaderSource srcDesc dstDesc this s =
     (let s = (if program (patchKernel this) \<noteq> 0
               then glDeleteProgram (program (patchKernel this)) s else s)
      in case compileKernel drv shaderSource srcDesc dstDesc
                ''#define OPENSUBDIV_GLSL_XFB_KERNEL_EVAL_PATCHES'' s of
           (Inl e, s) \<Rightarrow> (Inl e, this, s)
         | (Inr p, s) \<Rightarrow>
             let this = this\<lparr>patchKernel := (patchKernel this)\<lparr>program := p\<rparr>\<rparr>
             in if program (patchKernel this) = 0 then (Inr False, this, s)
                else
                  let (k, s) = cachePatchUniformLocations drv (patchKernel this) s;
                      this = this\<lparr>patchKernel := k\<rparr>
                  in (Inr True, this, s))"

definition createSrcBufferTexture :: "GLXFBEvaluator \<Rightarrow> world \<Rightarrow> GLXFBEvaluator \<times> world" where
  "createSrcBufferTexture this s =
     (if srcBufferTexture this = 0
      then let (t, s) = glGenTextures s in (this\<lparr>srcBufferTexture := t\<rparr>, s)
      else (this, s))"

definition Compile :: "driver \<Rightarrow> string \<Rightarrow> VertexBufferDescriptor \<Rightarrow> VertexBufferDescriptor \<Rightarrow> GLXFBEvaluator \<Rightarrow> world \<Rightarrow> (failure + bool) \<times> GLXFBEvaluator \<times> world" where
  "Compile drv shaderSource srcDesc dstDesc this s =
     (case createStencilKernel drv shaderSource srcDesc dstDesc this s of
        (Inl e, this, s) \<Rightarrow> (Inl e, this, s)
      | (Inr compiled, this, s) \<Rightarrow>
          if \<not> compiled then (Inr False, this, s)
          else
            (case createPatchKernel drv shaderSource srcDesc dstDesc this s of
               (Inl e, this, s) \<Rightarrow> (Inl e, this, s)
             | (Inr compiled, this, s) \<Rightarrow>
                 if \<not> compiled then (Inr False, this, s)
                 else
                   let (this, s) = createSrcBufferTexture this s
                   in (Inr True, this, s)))"

subsection \<open>Synchronize\<close>

definition Synchronize :: "'kernel \<Rightarrow> world \<Rightarrow> world" where
  "Synchronize kernel_arg s = glFinish s"

subsection \<open>bindTexture\<close>

definition bindTexture :: "GLint \<Rightarrow> GLuint \<Rightarrow> c_int \<Rightarrow> world \<Rightarrow> world" where
  "bindTexture sampler texture unit s =
     (if sampler = - 1 then s
      else
        let s = glUniform1i sampler unit s;
            s = glActiveTexture (unat unit) s;
            s = glBindTexture GL_TEXTURE_BUFFER texture s;
            s = glActiveTexture 0 s
        in s)"

text \<open>The loop that unbinds the buffer textures of the units \<open>i, ..., n - 1\<close>.\<close>

function unbind_textures :: "int \<Rightarrow> int \<Rightarrow> world \<Rightarrow> world" where
  "unbind_textures i n s =
     (if i < n
      then unbind_textures (i + 1) n (glBindTexture GL_TEXTURE_BUFFER 0 (glActiveTexture (nat i) s))
      else s)"
  by pat_completeness auto
termination
  by (relation "measure (\<lambda>(i, n, s). nat (n - i))") auto

declare unbind_textures.simps [simp del]

subsection \<open>EvalStencils\<close>

definition EvalStencils :: "GLXFBEvaluator \<Rightarrow> GLuint \<Rightarrow> VertexBufferDescriptor \<Rightarrow> GLuint \<Rightarrow> VertexBufferDescriptor \<Rightarrow> GLuint \<Rightarrow> GLuint \<Rightarrow> GLuint \<Rightarrow> GLuint \<Rightarrow> c_int \<Rightarrow> c_int \<Rightarrow> world \<Rightarrow> (failure + bool) \<times> world" where
  "EvalStencils this srcBuffer srcDesc dstBuffer dstDesc sizesTexture offsetsTexture
       indicesTexture weightsTexture start end s =
     (if program (stencilKernel this) = 0 then (Inr False, s)
      else
        let count = end - start in
        if sint count \<le> 0 then (Inr True, s)
        else
          let k = stencilKernel this;
              (vao, s) = glGenVertexArrays s;
              s = glBindVertexArray vao s;
              s = glEnable GL_RASTERIZER_DISCARD s;
              s = glUseProgram (program k) s;
              s = glBindTexture GL_TEXTURE_BUFFER (srcBufferTexture this) s;
              s = glTexBuffer GL_TEXTURE_BUFFER GL_R32F srcBuffer s;
              s = glBindTexture GL_TEXTURE_BUFFER 0 s;
              s = bindTexture (uniformSrcBufferTexture k) (srcBufferTexture this) 0 s;
              s = bindTexture (uniformSizesTexture k) sizesTexture 1 s;
              s = bindTexture (uniformOffsetsTexture k) offsetsTexture 2 s;
              s = bindTexture (uniformIndicesTexture k) indicesTexture 3 s;
              s = bindTexture (uniformWeightsTexture k) weightsTexture 4 s;
              s = glUniform1i (uniformStart k) start s;
              s = glUniform1i (uniformEnd k) end s;
              s = glUniform1i (uniformSrcOffset k) (offset srcDesc) s
          in case c_rem (offset dstDesc) (stride dstDesc) of
               Inl e \<Rightarrow> (Inl e, s)
             | Inr r \<Rightarrow>
                 let dstBufferBindOffset = offset dstDesc - r;
                     s = glBindBufferRange GL_TRANSFORM_FEEDBACK_BUFFER 0 dstBuffer
                           (scast dstBufferBindOffset * of_nat sizeof32)
                           (scast (count * stride dstDesc) * of_nat sizeof32) s;
                     s = glBeginTransformFeedback GL_POINTS s;
                     s = glDrawArrays GL_POINTS 0 count s;
                     s = glEndTransformFeedback s;
                     s = glBindBuffer GL_TRANSFORM_FEEDBACK_BUFFER 0 s;
                     s = unbind_textures 0 5 s;
                     s = glDisable GL_RASTERIZER_DISCARD s;
                     s = glUseProgram 0 s;
                     s = glActiveTexture 0 s;
                     s = glBindVertexArray 0 s;
                     s = glDeleteVertexArrays vao s
                 in (Inr True, s))"

subsection \<open>EvalPatches\<close>

definition derivative_message :: string where
  "derivative_message =
     ''GLXFBEvaluator doesn't support derivative evaluation yet.'' @ newline"

text \<open>
  A \<open>PatchArray\<close> is what \<open>glUniform4iv\<close> reads of it: four \<open>GLint\<close>s. The descriptors
  of the two derivative buffers are unnamed parameters of the source and are left out.
\<close>

definition EvalPatches :: "GLXFBEvaluator \<Rightarrow> GLuint \<Rightarrow> VertexBufferDescriptor \<Rightarrow> GLuint \<Rightarrow> VertexBufferDescriptor \<Rightarrow> GLuint \<Rightarrow> GLuint \<Rightarrow> c_int \<Rightarrow> GLuint \<Rightarrow> (GLint \<times> GLint \<times> GLint \<times> GLint) list \<Rightarrow> GLuint \<Rightarrow> GLuint \<Rightarrow> world \<Rightarrow> (failure + bool) \<times> world" where
  "EvalPatches this srcBuffer srcDesc dstBuffer dstDesc duBuffer dvBuffer numPatchCoords
       patchCoordsBuffer patchArrays patchIndexTexture patchParamTexture s =
     (if program (patchKernel this) = 0 then (Inr False, s)
      else
        let k = patchKernel this;
            s = (if duBuffer \<noteq> 0 \<or> dvBuffer \<noteq> 0
                 then Far_Error FAR_RUNTIME_ERROR derivative_message s else s);
            (vao, s) = glGenVertexArrays s;
            s = glBindVertexArray vao s;
            s = glEnable GL_RASTERIZER_DISCARD s;
            s = glUseProgram (program k) s;
            s = glBindTexture GL_TEXTURE_BUFFER (srcBufferTexture this) s;
            s = glTexBuffer GL_TEXTURE_BUFFER GL_R32F srcBuffer s;
            s = glBindTexture GL_TEXTURE_BUFFER 0 s;
            s = bindTexture (uniformSrcBufferTexture k) (srcBufferTexture this) 0 s;
            s = bindTexture (uniformPatchParamTexture k) patchParamTexture 1 s;
            s = bindTexture (uniformPatchIndexTexture k) patchIndexTexture 2 s;
            s = glUniform4iv (uniformPatchArray k) (word_of_nat (length patchArrays))
                  patchArrays s;
            s = glUniform1i (uniformSrcOffset k) (offset srcDesc) s;
            s = glEnableVertexAttribArray 0 s;
            s = glEnableVertexAttribArray 1 s;
            coordStride = sizeof32 * 5;
            s = glBindBuffer GL_ARRAY_BUFFER patchCoordsBuffer s;
            s = glVertexAttribIPointer 0 3 GL_UNSIGNED_INT coordStride 0 s;
            s = glVertexAttribPointer 1 2 GL_FLOAT False coordStride (sizeof32 * 3) s
        in case c_rem (offset dstDesc) (stride dstDesc) of
             Inl e \<Rightarrow> (Inl e, s)
           | Inr r \<Rightarrow>
               let dstBufferBindOffset = offset dstDesc - r;
                   s = glBindBufferRange GL_TRANSFORM_FEEDBACK_BUFFER 0 dstBuffer
                         (scast dstBufferBindOffset * of_nat sizeof32)
                         (scast (numPatchCoords * stride dstDesc) * of_nat sizeof32) s;
                   s = glBeginTransformFeedback GL_POINTS s;
                   s = glDrawArrays GL_POINTS 0 numPatchCoords s;
                   s = glEndTransformFeedback s;
                   s = glBindBuffer GL_TRANSFORM_FEEDBACK_BUFFER 0 s;
                   s = unbind_textures 0 3 s;
                   s = glDisable GL_RASTERIZER_DISCARD s;
                   s = glUseProgram 0 s;
                   s = glActiveTexture 0 s;
                   s = glDisableVertexAttribArray 0 s;
                   s = glDisableVertexAttribArray 1 s;
                   s = glBindVertexArray 0 s;
                   s = glDeleteVertexArrays vao s
               in (Inr True, s))"


section \<open>Auxiliary notions and concrete contexts\<close>

subsection \<open>Views of the command stream and of the context\<close>

text \<open>The commands a fence-based synchronisation would issue.\<close>

definition is_sync_call :: "gl_call \<Rightarrow> bool" where
  "is_sync_call c =
     (case c of FenceSync \<Rightarrow> True | ClientWaitSync \<Rightarrow> True | WaitSync \<Rightarrow> True | _ \<Rightarrow> False)"

definition is_draw_call :: "gl_call \<Rightarrow> bool" where
  "is_draw_call c = (case c of DrawArrays mode first count \<Rightarrow> True | _ \<Rightarrow> False)"

definition is_shader_source_call :: "gl_call \<Rightarrow> bool" where
  "is_shader_source_call c = (case c of ShaderSource shader count strings \<Rightarrow> True | _ \<Rightarrow> False)"

definition is_varyings_call :: "gl_call \<Rightarrow> bool" where
  "is_varyings_call c =
     (case c of TransformFeedbackVaryings p count varyings bufferMode \<Rightarrow> True | _ \<Rightarrow> False)"

definition is_upload_call :: "gl_call \<Rightarrow> bool" where
  "is_upload_call c =
     (case c of
        BufferData target nbytes data usage \<Rightarrow> True
      | NamedBufferDataEXT buffer nbytes data usage \<Rightarrow> True
      | _ \<Rightarrow> False)"

text \<open>The commands of one call of \<open>bindTexture\<close>.\<close>

definition bindTexture_calls :: "GLint \<Rightarrow> GLuint \<Rightarrow> c_int \<Rightarrow> gl_call list" where
  "bindTexture_calls sampler texture unit =
     (if sampler = - 1 then []
      else [Uniform1i sampler unit, ActiveTexture (unat unit),
            BindTexture GL_TEXTURE_BUFFER texture, ActiveTexture 0])"

text \<open>What a buffer texture shows to a shader: its format and the store of its buffer.\<close>

definition texture_contents :: "world \<Rightarrow> GLuint \<Rightarrow> (GLenum \<times> 32 word list) option" where
  "texture_contents s texture =
     (case texture_store s texture of
        None \<Rightarrow> None
      | Some (internalformat, buffer) \<Rightarrow>
          (case buffer_store s buffer of
             None \<Rightarrow> None
           | Some data \<Rightarrow> Some (internalformat, data)))"

text \<open>
  The state an evaluation that started in \<open>s\<close> leaves in \<open>s'\<close>, for the texture units
  \<open>0, ..., units - 1\<close> and the unit that was active in \<open>s\<close>: every binding named is 0,
  unit 0 is active, rasterizer discard is off, and the vertex array generated by the first
  new command is deleted by the last one and is no longer alive.
\<close>

definition bindings_reset :: "nat \<Rightarrow> world \<Rightarrow> world \<Rightarrow> bool" where
  "bindings_reset units s s' =
     (transform_feedback_buffer_binding s' = 0
      \<and> list_all (\<lambda>unit. texture_binding_buffer s' unit = 0) (active_texture s # [0..<units])
      \<and> current_program s' = 0
      \<and> vertex_array_binding s' = 0
      \<and> active_texture s' = 0
      \<and> \<not> rasterizer_discard s'
      \<and> calls s' ! length (calls s) = GenVertexArrays (Suc (next_name s))
      \<and> last (calls s') = DeleteVertexArrays (Suc (next_name s))
      \<and> Suc (next_name s) \<notin> vertex_arrays s')"

text \<open>The value a string of decimal digits denotes.\<close>

definition decimal_value :: "string \<Rightarrow> nat" where
  "decimal_value ds = foldl (\<lambda>a c. 10 * a + (of_char c - 48)) 0 ds"

text \<open>
  The \<open>int\<close> a decimal numeral denotes. A numeral is a string of digits (the characters
  of codes 48 to 57), after a minus sign for a negative \<open>int\<close>, without a leading zero:
  the numeral of 0 is \<open>0\<close>, and there is no \<open>-0\<close>. No other string denotes an \<open>int\<close>.
\<close>

definition is_digit :: "char \<Rightarrow> bool" where
  "is_digit c = (48 \<le> (of_char c :: nat) \<and> (of_char c :: nat) \<le> 57)"

definition nat_of_decimal :: "string \<Rightarrow> nat option" where
  "nat_of_decimal ds =
     (if ds \<noteq> [] \<and> list_all is_digit ds \<and> (ds = ''0'' \<or> hd ds \<noteq> CHR ''0'')
      then Some (decimal_value ds) else None)"

definition int_of_decimal :: "string \<Rightarrow> int option" where
  "int_of_decimal str =
     (case str of
        [] \<Rightarrow> None
      | c # ds \<Rightarrow>
          if c = CHR ''-'' then
            (case nat_of_decimal ds of
               None \<Rightarrow> None
             | Some n \<Rightarrow> if n = 0 then None else Some (- int n))
          else map_option int (nat_of_decimal str))"

subsection \<open>Concrete contexts, drivers and objects\<close>

text \<open>A context right after its creation.\<close>

definition initial_world :: world where
  "initial_world =
     \<lparr>calls = [], next_name = 0, far_errors = [], active_texture = 0,
      texture_binding_buffer = (\<lambda>unit. 0), array_buffer_binding = 0,
      transform_feedback_buffer_binding = 0,
      transform_feedback_buffer_range = (\<lambda>index. (0, 0, 0)),
      current_program = 0, vertex_array_binding = 0, rasterizer_discard = False,
      vertex_arrays = {}, buffer_store = (\<lambda>buffer. None),
      texture_store = (\<lambda>texture. None)\<rparr>"

text \<open>
  Drivers: one that links every program, one that links none, one that links program 1
  only, and one that links none and has info logs longer than 1023 characters.
\<close>

definition linking_driver :: driver where
  "linking_driver =
     \<lparr>direct_state_access = False, link_status = (\<lambda>program. True),
      shader_info_log = (\<lambda>shader. []), program_info_log = (\<lambda>program. []),
      uniform_location = (\<lambda>program name. 0)\<rparr>"

definition failing_driver :: driver where
  "failing_driver =
     \<lparr>direct_state_access = False, link_status = (\<lambda>program. False),
      shader_info_log = (\<lambda>shader. ''0:1: syntax error''),
      program_info_log = (\<lambda>program. ''link failed''),
      uniform_location = (\<lambda>program name. 0)\<rparr>"

definition patch_failing_driver :: driver where
  "patch_failing_driver =
     \<lparr>direct_state_access = False, link_status = (\<lambda>program. program = 1),
      shader_info_log = (\<lambda>shader. ''0:1: syntax error''),
      program_info_log = (\<lambda>program. ''link failed''),
      uniform_location = (\<lambda>program name. 0)\<rparr>"

definition long_log_driver :: driver where
  "long_log_driver =
     \<lparr>direct_state_access = False, link_status = (\<lambda>program. False),
      shader_info_log = (\<lambda>shader. replicate 1024 (CHR ''x'')),
      program_info_log = (\<lambda>program. replicate 2000 (CHR ''y'')),
      uniform_location = (\<lambda>program name. 0)\<rparr>"

definition direct_state_access_driver :: driver where
  "direct_state_access_driver = linking_driver\<lparr>direct_state_access := True\<rparr>"

text \<open>An evaluator as \<open>Compile\<close> leaves it when both kernels link.\<close>

definition compiled_evaluator :: GLXFBEvaluator where
  "compiled_evaluator =
     \<lparr>srcBufferTexture = 5,
      stencilKernel =
        \<lparr>program = 1, uniformSrcBufferTexture = 0, uniformSrcOffset = 1,
         uniformSizesTexture = 2, uniformOffsetsTexture = 3, uniformIndicesTexture = 4,
         uniformWeightsTexture = 5, uniformStart = 6, uniformEnd = 7, uniformPatchArray = 0,
         uniformPatchParamTexture = 0, uniformPatchIndexTexture = 0\<rparr>,
      patchKernel =
        \<lparr>program = 3, uniformSrcBufferTexture = 0, uniformSrcOffset = 1,
         uniformSizesTexture = 0, uniformOffsetsTexture = 0, uniformIndicesTexture = 0,
         uniformWeightsTexture = 0, uniformStart = 0, uniformEnd = 0, uniformPatchArray = 2,
         uniformPatchParamTexture = 3, uniformPatchIndexTexture = - 1\<rparr>\<rparr>"

text \<open>Descriptors: three floats per vertex, and three floats at offset 1 of six.\<close>

definition packed_desc :: VertexBufferDescriptor where
  "packed_desc = \<lparr>offset = 0, length' = 3, stride = 3\<rparr>"

definition interleaved_desc :: VertexBufferDescriptor where
  "interleaved_desc = \<lparr>offset = 7, length' = 3, stride = 6\<rparr>"

text \<open>A descriptor with every field 0.\<close>

definition zero_desc :: VertexBufferDescriptor where
  "zero_desc = \<lparr>offset = 0, length' = 0, stride = 0\<rparr>"

text \<open>The contexts \<open>compileKernel\<close> and \<open>createGLTextureBuffer\<close> leave behind.\<close>

definition compileKernel_world :: "driver \<Rightarrow> string \<Rightarrow> VertexBufferDescriptor \<Rightarrow> VertexBufferDescriptor \<Rightarrow> string \<Rightarrow> world \<Rightarrow> world" where
  "compileKernel_world drv shaderSource srcDesc dstDesc kernelDefine s =
     snd (compileKernel drv shaderSource srcDesc dstDesc kernelDefine s)"

definition createGLTextureBuffer_world :: "driver \<Rightarrow> 32 word list \<Rightarrow> GLenum \<Rightarrow> world \<Rightarrow> world" where
  "createGLTextureBuffer_world drv src type s = snd (createGLTextureBuffer drv src type s)"

text \<open>The last \<open>n\<close> commands of a stream.\<close>

definition last_calls :: "nat \<Rightarrow> gl_call list \<Rightarrow> gl_call list" where
  "last_calls n cs = drop (length cs - n) cs"

text \<open>Descriptors with a negative offset and with a negative length.\<close>

definition negative_offset_desc :: VertexBufferDescriptor where
  "negative_offset_desc = \<lparr>offset = - 1, length' = 1, stride = 4\<rparr>"

definition negative_length_desc :: VertexBufferDescriptor where
  "negative_length_desc = \<lparr>offset = 0, length' = - 1, stride = 2\<rparr>"

text \<open>A descriptor whose remainder \<open>offset % stride\<close> is \<open>INT_MIN % -1\<close>.\<close>

definition overflow_desc :: VertexBufferDescriptor where
  "overflow_desc = \<lparr>offset = - (2 ^ 31), length' = 1, stride = - 1\<rparr>"

text \<open>
  Stencil tables: two stencils of one and two entries; one stencil of no entry; and one
  stencil of one entry in a table whose offsets have not been generated.
\<close>

definition two_stencils_table :: StencilTable where
  "two_stencils_table =
     \<lparr>GetNumStencils = 2, GetSizes = [1, 2], GetOffsets = [0, 1],
      GetControlIndices = [5, 6, 7], GetWeights = [0x3F800000, 0x3F000000, 0x3F000000]\<rparr>"

definition zero_size_stencil_table :: StencilTable where
  "zero_size_stencil_table =
     \<lparr>GetNumStencils = 1, GetSizes = [0], GetOffsets = [0], GetControlIndices = [],
      GetWeights = []\<rparr>"

definition no_offsets_table :: StencilTable where
  "no_offsets_table =
     \<lparr>GetNumStencils = 1, GetSizes = [1], GetOffsets = [], GetControlIndices = [5],
      GetWeights = [0x3F800000]\<rparr>"

section \<open>Facts about the commands\<close>

lemmas gl_commands =
  Far_Error_def glGenBuffers_def glGenTextures_def glGenVertexArrays_def
  glCreateProgram_def glCreateShader_def glGetIntegerv_def glBindBuffer_def glBufferData_def
  glNamedBufferDataEXT_def glBindTexture_def glTexBuffer_def glTextureBufferEXT_def
  glDeleteBuffers_def glDeleteTextures_def glDeleteVertexArrays_def glBindVertexArray_def
  glActiveTexture_def glUseProgram_def glEnable_def glDisable_def glBindBufferRange_def
  glShaderSource_def glCompileShader_def glAttachShader_def glTransformFeedbackVaryings_def
  glLinkProgram_def glDeleteProgram_def glDeleteShader_def glFinish_def glUniform1i_def
  glUniform4iv_def glEnableVertexAttribArray_def glDisableVertexAttribArray_def
  glVertexAttribIPointer_def glVertexAttribPointer_def glBeginTransformFeedback_def
  glDrawArrays_def glEndTransformFeedback_def glGetProgramiv_def glGetShaderInfoLog_def
  glGetProgramInfoLog_def glGetUniformLocation_def

text \<open>
  Issuing a command is an update of the stream alone. In this form the context is not
  duplicated in the term, which keeps the simplifier fast on long command sequences.
\<close>

lemma issue_update: "issue c s = calls_update (\<lambda>cs. cs @ [c]) s"
  by (simp add: issue_def)

lemmas gl_simps = gl_commands issue_update

lemma c_rem_defined:
  assumes "b \<noteq> 0"
    and "\<not> (sint a = - (2 ^ 31) \<and> sint b = - 1)"
  shows "\<exists>r. c_rem a b = Inr r"
  using assms by (simp add: c_rem_def)

lemma bindTexture_update:
  "bindTexture sampler texture unit s =
     calls_update (\<lambda>cs. cs @ bindTexture_calls sampler texture unit)
       (active_texture_update (\<lambda>a. if sampler = - 1 then a else 0)
         (texture_binding_buffer_update
            (\<lambda>f. if sampler = - 1 then f else f(unat unit := texture)) s))"
  by (simp add: bindTexture_def bindTexture_calls_def Let_def gl_simps)

lemma unbind_textures_0_5:
  "unbind_textures 0 5 s =
     glBindTexture GL_TEXTURE_BUFFER 0 (glActiveTexture 4
    (glBindTexture GL_TEXTURE_BUFFER 0 (glActiveTexture 3
    (glBindTexture GL_TEXTURE_BUFFER 0 (glActiveTexture 2
    (glBindTexture GL_TEXTURE_BUFFER 0 (glActiveTexture 1
    (glBindTexture GL_TEXTURE_BUFFER 0 (glActiveTexture 0 s)))))))))"
  by (simp add: unbind_textures.simps)

lemma unbind_textures_0_3:
  "unbind_textures 0 3 s =
     glBindTexture GL_TEXTURE_BUFFER 0 (glActiveTexture 2
    (glBindTexture GL_TEXTURE_BUFFER 0 (glActiveTexture 1
    (glBindTexture GL_TEXTURE_BUFFER 0 (glActiveTexture 0 s)))))"
  by (simp add: unbind_textures.simps)

lemmas run_simps =
  Let_def bindTexture_update gl_simps unbind_textures_0_5 unbind_textures_0_3

lemmas eval_simps = run_simps c_rem_def

section \<open>Synchronize\<close>

text \<open>
  Claim C7. Every call of \<open>Synchronize\<close> issues \<open>glFinish\<close> and nothing else, whatever
  its kernel argument is: the context it returns is the one it got with \<open>Finish\<close>
  appended to the command stream, and the stream has gained no fence or sync command.
\<close>

theorem Synchronize_is_glFinish:
  "Synchronize kernel_arg s = s\<lparr>calls := calls s @ [Finish]\<rparr>
   \<and> filter is_sync_call (calls (Synchronize kernel_arg s)) = filter is_sync_call (calls s)"
  by (simp add: Synchronize_def glFinish_def issue_def is_sync_call_def)

section \<open>EvalStencils\<close>

subsection \<open>The commands of a call that reaches the draw\<close>

lemma EvalStencils_calls:
  assumes "program (stencilKernel this) \<noteq> 0"
    and "0 < sint (end - start)"
    and "c_rem (offset dstDesc) (stride dstDesc) = Inr r"
  shows "calls (snd (EvalStencils this srcBuffer srcDesc dstBuffer dstDesc sizesTexture
           offsetsTexture indicesTexture weightsTexture start end s)) =
         calls s
         @ [GenVertexArrays (Suc (next_name s)), BindVertexArray (Suc (next_name s)),
            Enable GL_RASTERIZER_DISCARD, UseProgram (program (stencilKernel this)),
            BindTexture GL_TEXTURE_BUFFER (srcBufferTexture this),
            TexBuffer GL_TEXTURE_BUFFER GL_R32F srcBuffer, BindTexture GL_TEXTURE_BUFFER 0]
         @ bindTexture_calls (uniformSrcBufferTexture (stencilKernel this))
             (srcBufferTexture this) 0
         @ bindTexture_calls (uniformSizesTexture (stencilKernel this)) sizesTexture 1
         @ bindTexture_calls (uniformOffsetsTexture (stencilKernel this)) offsetsTexture 2
         @ bindTexture_calls (uniformIndicesTexture (stencilKernel this)) indicesTexture 3
         @ bindTexture_calls (uniformWeightsTexture (stencilKernel this)) weightsTexture 4
         @ [Uniform1i (uniformStart (stencilKernel this)) start,
            Uniform1i (uniformEnd (stencilKernel this)) end,
            Uniform1i (uniformSrcOffset (stencilKernel this)) (offset srcDesc),
            BindBufferRange GL_TRANSFORM_FEEDBACK_BUFFER 0 dstBuffer
              (scast (offset dstDesc - r) * 4) (scast ((end - start) * stride dstDesc) * 4),
            BeginTransformFeedback GL_POINTS, DrawArrays GL_POINTS 0 (end - start),
            EndTransformFeedback]
         @ [BindBuffer GL_TRANSFORM_FEEDBACK_BUFFER 0,
            ActiveTexture 0, BindTexture GL_TEXTURE_BUFFER 0,
            ActiveTexture 1, BindTexture GL_TEXTURE_BUFFER 0,
            ActiveTexture 2, BindTexture GL_TEXTURE_BUFFER 0,
            ActiveTexture 3, BindTexture GL_TEXTURE_BUFFER 0,
            ActiveTexture 4, BindTexture GL_TEXTURE_BUFFER 0,
            Disable GL_RASTERIZER_DISCARD, UseProgram 0, ActiveTexture 0,
            BindVertexArray 0, DeleteVertexArrays (Suc (next_name s))]"
  using assms
  by (simp add: EvalStencils_def Let_def bindTexture_update gl_simps unbind_textures_0_5
        sizeof32_def split: prod.splits)

text \<open>
  Claim C6, as amended. For every call of \<open>EvalStencils\<close> with a compiled stencil kernel,
  \<open>end - start > 0\<close> and a destination descriptor for which the remainder
  \<open>dstDesc.offset % dstDesc.stride\<close> is defined (\<open>dstDesc.stride \<noteq> 0\<close>, and not
  \<open>dstDesc.offset = INT_MIN\<close> with \<open>dstDesc.stride = -1\<close>): the commands of the call
  contain, in a row, the three uniforms (batch start, batch end, source offset), the
  binding of the destination buffer to the transform-feedback binding point 0 at byte
  offset \<open>(dstDesc.offset - dstDesc.offset % dstDesc.stride) * sizeof(float)\<close> for
  \<open>(end - start) * dstDesc.stride * sizeof(float)\<close> bytes, and a transform feedback of one
  draw of \<open>end - start\<close> points; the call issues no other draw. The quantities are the C
  expressions of the source: \<open>end - start\<close>, the remainder, the difference and the product
  with the stride are \<open>int\<close> operations in 32 bits, the products with \<open>sizeof(float)\<close>
  are taken in 64 bits.
\<close>

theorem EvalStencils_draw:
  assumes "program (stencilKernel this) \<noteq> 0"
    and "0 < sint (end - start)"
    and "stride dstDesc \<noteq> 0"
    and "\<not> (sint (offset dstDesc) = - (2 ^ 31) \<and> sint (stride dstDesc) = - 1)"
  shows "\<exists>r before after.
           c_rem (offset dstDesc) (stride dstDesc) = Inr r
           \<and> calls (snd (EvalStencils this srcBuffer srcDesc dstBuffer dstDesc sizesTexture
                 offsetsTexture indicesTexture weightsTexture start end s))
             = calls s @ before
               @ [Uniform1i (uniformStart (stencilKernel this)) start,
                  Uniform1i (uniformEnd (stencilKernel this)) end,
                  Uniform1i (uniformSrcOffset (stencilKernel this)) (offset srcDesc),
                  BindBufferRange GL_TRANSFORM_FEEDBACK_BUFFER 0 dstBuffer
                    (scast (offset dstDesc - r) * of_nat sizeof32)
                    (scast ((end - start) * stride dstDesc) * of_nat sizeof32),
                  BeginTransformFeedback GL_POINTS,
                  DrawArrays GL_POINTS 0 (end - start),
                  EndTransformFeedback]
               @ after
           \<and> filter is_draw_call before = []
           \<and> filter is_draw_call after = []"
proof -
  from assms(3,4) obtain r where r: "c_rem (offset dstDesc) (stride dstDesc) = Inr r"
    using c_rem_defined by blast
  let ?k = "stencilKernel this"
  let ?before =
    "[GenVertexArrays (Suc (next_name s)), BindVertexArray (Suc (next_name s)),
      Enable GL_RASTERIZER_DISCARD, UseProgram (program ?k),
      BindTexture GL_TEXTURE_BUFFER (srcBufferTexture this),
      TexBuffer GL_TEXTURE_BUFFER GL_R32F srcBuffer, BindTexture GL_TEXTURE_BUFFER 0]
     @ bindTexture_calls (uniformSrcBufferTexture ?k) (srcBufferTexture this) 0
     @ bindTexture_calls (uniformSizesTexture ?k) sizesTexture 1
     @ bindTexture_calls (uniformOffsetsTexture ?k) offsetsTexture 2
     @ bindTexture_calls (uniformIndicesTexture ?k) indicesTexture 3
     @ bindTexture_calls (uniformWeightsTexture ?k) weightsTexture 4"
  let ?after =
    "[BindBuffer GL_TRANSFORM_FEEDBACK_BUFFER 0,
      ActiveTexture 0, BindTexture GL_TEXTURE_BUFFER 0,
      ActiveTexture 1, BindTexture GL_TEXTURE_BUFFER 0,
      ActiveTexture 2, BindTexture GL_TEXTURE_BUFFER 0,
      ActiveTexture 3, BindTexture GL_TEXTURE_BUFFER 0,
      ActiveTexture 4, BindTexture GL_TEXTURE_BUFFER 0,
      Disable GL_RASTERIZER_DISCARD, UseProgram 0, ActiveTexture 0,
      BindVertexArray 0, DeleteVertexArrays (Suc (next_name s))]"
  have before: "filter is_draw_call ?before = []"
    by (simp add: is_draw_call_def bindTexture_calls_def)
  have after: "filter is_draw_call ?after = []"
    by (simp add: is_draw_call_def)
  have trace: "calls (snd (EvalStencils this srcBuffer srcDesc dstBuffer dstDesc sizesTexture
                 offsetsTexture indicesTexture weightsTexture start end s))
             = calls s @ ?before
               @ [Uniform1i (uniformStart (stencilKernel this)) start,
                  Uniform1i (uniformEnd (stencilKernel this)) end,
                  Uniform1i (uniformSrcOffset (stencilKernel this)) (offset srcDesc),
                  BindBufferRange GL_TRANSFORM_FEEDBACK_BUFFER 0 dstBuffer
                    (scast (offset dstDesc - r) * of_nat sizeof32)
                    (scast ((end - start) * stride dstDesc) * of_nat sizeof32),
                  BeginTransformFeedback GL_POINTS,
                  DrawArrays GL_POINTS 0 (end - start),
                  EndTransformFeedback]
               @ ?after"
    using EvalStencils_calls [OF assms(1) assms(2) r, of srcBuffer srcDesc dstBuffer
      sizesTexture offsetsTexture indicesTexture weightsTexture s]
    by (simp add: sizeof32_def)
  show ?thesis
    by (rule exI [of _ r], rule exI [of _ ?before], rule exI [of _ ?after])
       (intro conjI r trace before after)
qed

text \<open>
  The theorem at work: eight stencils from 2 to 10 into a buffer of six floats per
  vertex, the data at offset 7. The buffer is bound at byte 24 for 192 bytes.
\<close>

theorem EvalStencils_draw_witness:
  "\<exists>before after.
     calls (snd (EvalStencils compiled_evaluator 10 packed_desc 11 interleaved_desc
              6 7 8 9 2 10 initial_world))
       = before
         @ [Uniform1i 6 2, Uniform1i 7 10, Uniform1i 1 0,
            BindBufferRange GL_TRANSFORM_FEEDBACK_BUFFER 0 11 24 192,
            BeginTransformFeedback GL_POINTS, DrawArrays GL_POINTS 0 8, EndTransformFeedback]
         @ after
     \<and> filter is_draw_call before = []
     \<and> filter is_draw_call after = []"
proof -
  have p: "program (stencilKernel compiled_evaluator) \<noteq> 0"
    by (simp add: compiled_evaluator_def)
  have c: "0 < sint ((10 :: c_int) - 2)"
    by simp
  have d: "stride interleaved_desc \<noteq> 0"
    by (simp add: interleaved_desc_def)
  have m: "\<not> (sint (offset interleaved_desc) = - (2 ^ 31)
              \<and> sint (stride interleaved_desc) = - 1)"
    by (simp add: interleaved_desc_def)
  have r: "c_rem (offset interleaved_desc) (stride interleaved_desc) = Inr 1"
    by (simp add: c_rem_def interleaved_desc_def)
  from EvalStencils_draw [OF p c d m, of 10 packed_desc 11 6 7 8 9 initial_world]
  obtain r' before after where
    "c_rem (offset interleaved_desc) (stride interleaved_desc) = Inr r'"
    "calls (snd (EvalStencils compiled_evaluator 10 packed_desc 11 interleaved_desc
              6 7 8 9 2 10 initial_world))
       = calls initial_world @ before
         @ [Uniform1i (uniformStart (stencilKernel compiled_evaluator)) 2,
            Uniform1i (uniformEnd (stencilKernel compiled_evaluator)) 10,
            Uniform1i (uniformSrcOffset (stencilKernel compiled_evaluator)) (offset packed_desc),
            BindBufferRange GL_TRANSFORM_FEEDBACK_BUFFER 0 11
              (scast (offset interleaved_desc - r') * of_nat sizeof32)
              (scast ((10 - 2) * stride interleaved_desc) * of_nat sizeof32),
            BeginTransformFeedback GL_POINTS, DrawArrays GL_POINTS 0 (10 - 2),
            EndTransformFeedback]
         @ after"
    "filter is_draw_call before = []" "filter is_draw_call after = []"
    by blast
  with r have
    "calls (snd (EvalStencils compiled_evaluator 10 packed_desc 11 interleaved_desc
              6 7 8 9 2 10 initial_world))
       = before
         @ [Uniform1i 6 2, Uniform1i 7 10, Uniform1i 1 0,
            BindBufferRange GL_TRANSFORM_FEEDBACK_BUFFER 0 11 24 192,
            BeginTransformFeedback GL_POINTS, DrawArrays GL_POINTS 0 8, EndTransformFeedback]
         @ after
     \<and> filter is_draw_call before = []
     \<and> filter is_draw_call after = []"
    by (simp add: initial_world_def compiled_evaluator_def sizeof32_def packed_desc_def
          interleaved_desc_def)
  then show ?thesis
    by (intro exI)
qed

text \<open>
  The claim as it stands, for every destination descriptor, fails: with a compiled
  kernel, one stencil and a destination descriptor of stride 0,
  \<open>dstDesc.offset % dstDesc.stride\<close> divides by zero, and no draw has been issued by then.
\<close>

theorem EvalStencils_draw_stride_zero:
  "program (stencilKernel compiled_evaluator) \<noteq> 0
   \<and> 0 < sint ((1 :: c_int) - 0)
   \<and> fst (EvalStencils compiled_evaluator 10 packed_desc 11 zero_desc 6 7 8 9 0 1
            initial_world) = Inl DivisionByZero
   \<and> filter is_draw_call
        (calls (snd (EvalStencils compiled_evaluator 10 packed_desc 11 zero_desc 6 7 8 9 0 1
           initial_world))) = []"
  by (simp add: EvalStencils_def eval_simps compiled_evaluator_def initial_world_def
        is_draw_call_def bindTexture_calls_def zero_desc_def packed_desc_def
        split: prod.splits)

text \<open>
  A nonzero stride is not enough: with \<open>dstDesc.offset = INT_MIN\<close> and
  \<open>dstDesc.stride = -1\<close> the remainder overflows, and again the call ends there, before
  the destination buffer is bound and without a draw.
\<close>

lemma EvalStencils_remainder_overflow:
  "stride overflow_desc \<noteq> 0
   \<and> fst (EvalStencils compiled_evaluator 10 packed_desc 11 overflow_desc 6 7 8 9 0 1
            initial_world) = Inl IntegerOverflow
   \<and> filter is_draw_call
        (calls (snd (EvalStencils compiled_evaluator 10 packed_desc 11 overflow_desc 6 7 8 9
           0 1 initial_world))) = []"
  by (simp add: EvalStencils_def eval_simps compiled_evaluator_def initial_world_def
        is_draw_call_def bindTexture_calls_def overflow_desc_def packed_desc_def
        split: prod.splits)

subsection \<open>The three ways out\<close>

text \<open>
  Claim C8, as amended. For every call of \<open>EvalStencils\<close>: without a compiled stencil
  kernel it returns false and leaves the context as it was; otherwise, with
  \<open>end - start \<le> 0\<close>, it returns true and leaves the context as it was (no command is
  issued); otherwise, when the remainder \<open>dstDesc.offset % dstDesc.stride\<close> is defined
  (\<open>dstDesc.stride \<noteq> 0\<close>, and not \<open>dstDesc.offset = INT_MIN\<close> with
  \<open>dstDesc.stride = -1\<close>), it returns true. Here \<open>end - start\<close> is the \<open>int\<close> expression of
  the source, in 32 bits. When the remainder is not defined the call does not return:
  it fails at the remainder, after the commands that precede it.
\<close>

theorem EvalStencils_returns:
  "(program (stencilKernel this) = 0 \<longrightarrow>
      EvalStencils this srcBuffer srcDesc dstBuffer dstDesc sizesTexture offsetsTexture
        indicesTexture weightsTexture start end s = (Inr False, s))
   \<and> (program (stencilKernel this) \<noteq> 0 \<and> sint (end - start) \<le> 0 \<longrightarrow>
      EvalStencils this srcBuffer srcDesc dstBuffer dstDesc sizesTexture offsetsTexture
        indicesTexture weightsTexture start end s = (Inr True, s))
   \<and> (program (stencilKernel this) \<noteq> 0 \<and> 0 < sint (end - start) \<and> stride dstDesc \<noteq> 0
      \<and> \<not> (sint (offset dstDesc) = - (2 ^ 31) \<and> sint (stride dstDesc) = - 1) \<longrightarrow>
      fst (EvalStencils this srcBuffer srcDesc dstBuffer dstDesc sizesTexture offsetsTexture
        indicesTexture weightsTexture start end s) = Inr True)
   \<and> (program (stencilKernel this) \<noteq> 0 \<and> 0 < sint (end - start)
      \<and> (stride dstDesc = 0
         \<or> sint (offset dstDesc) = - (2 ^ 31) \<and> sint (stride dstDesc) = - 1) \<longrightarrow>
      fst (EvalStencils this srcBuffer srcDesc dstBuffer dstDesc sizesTexture offsetsTexture
        indicesTexture weightsTexture start end s)
        = Inl (if stride dstDesc = 0 then DivisionByZero else IntegerOverflow))"
  by (simp add: EvalStencils_def Let_def c_rem_def split: prod.splits)

theorem EvalStencils_returns_witness:
  "EvalStencils new_GLXFBEvaluator 10 packed_desc 11 interleaved_desc 6 7 8 9 0 8 initial_world
     = (Inr False, initial_world)
   \<and> EvalStencils compiled_evaluator 10 packed_desc 11 interleaved_desc 6 7 8 9 8 8
       initial_world = (Inr True, initial_world)
   \<and> fst (EvalStencils compiled_evaluator 10 packed_desc 11 interleaved_desc 6 7 8 9 0 8
       initial_world) = Inr True
   \<and> fst (EvalStencils compiled_evaluator 10 packed_desc 11 overflow_desc 6 7 8 9 0 8
       initial_world) = Inl IntegerOverflow"
  using
    EvalStencils_returns [of new_GLXFBEvaluator 10 packed_desc 11 interleaved_desc
      6 7 8 9 0 8 initial_world]
    EvalStencils_returns [of compiled_evaluator 10 packed_desc 11 interleaved_desc
      6 7 8 9 8 8 initial_world]
    EvalStencils_returns [of compiled_evaluator 10 packed_desc 11 interleaved_desc
      6 7 8 9 0 8 initial_world]
    EvalStencils_returns [of compiled_evaluator 10 packed_desc 11 overflow_desc
      6 7 8 9 0 8 initial_world]
  by (simp add: new_GLXFBEvaluator_def compiled_evaluator_def interleaved_desc_def
        overflow_desc_def Let_def)

text \<open>
  The third branch of the claim as it stands, "otherwise it returns true", fails for a
  destination descriptor of stride 0: the call does not return true, it divides by zero.
\<close>

theorem EvalStencils_returns_stride_zero:
  "program (stencilKernel compiled_evaluator) \<noteq> 0
   \<and> \<not> sint ((4 :: c_int) - 0) \<le> 0
   \<and> fst (EvalStencils compiled_evaluator 10 packed_desc 11
            \<lparr>offset = 2, length' = 3, stride = 0\<rparr> 6 7 8 9 0 4 initial_world)
       = Inl DivisionByZero
   \<and> fst (EvalStencils compiled_evaluator 10 packed_desc 11
            \<lparr>offset = 2, length' = 3, stride = 0\<rparr> 6 7 8 9 0 4 initial_world)
       \<noteq> Inr True"
  by (simp add: EvalStencils_def Let_def c_rem_def compiled_evaluator_def split: prod.splits)


text \<open>So it does when the remainder overflows, although the stride is not 0.\<close>

lemma EvalStencils_returns_remainder_overflow:
  "program (stencilKernel compiled_evaluator) \<noteq> 0
   \<and> \<not> sint ((4 :: c_int) - 0) \<le> 0
   \<and> stride overflow_desc \<noteq> 0
   \<and> fst (EvalStencils compiled_evaluator 10 packed_desc 11 overflow_desc 6 7 8 9 0 4
            initial_world) = Inl IntegerOverflow"
  by (simp add: EvalStencils_def Let_def c_rem_def compiled_evaluator_def overflow_desc_def
        split: prod.splits)

section \<open>EvalPatches\<close>

text \<open>
  Claim C1, as amended. For every call of \<open>EvalPatches\<close> with a compiled patch kernel in
  which a derivative buffer is requested (\<open>duBuffer \<noteq> 0\<close> or \<open>dvBuffer \<noteq> 0\<close>), the
  evaluator reports one runtime error, \<open>Far::Error(FAR_RUNTIME_ERROR, ...)\<close> with the
  message that derivative evaluation is not supported. (This holds whether or not the
  call then completes: the report comes first.)
\<close>

theorem EvalPatches_derivative_error:
  assumes "program (patchKernel this) \<noteq> 0"
    and "duBuffer \<noteq> 0 \<or> dvBuffer \<noteq> 0"
  shows "far_errors (snd (EvalPatches this srcBuffer srcDesc dstBuffer dstDesc duBuffer dvBuffer
           numPatchCoords patchCoordsBuffer patchArrays patchIndexTexture patchParamTexture s))
         = far_errors s @ [(FAR_RUNTIME_ERROR, derivative_message)]"
  using assms
  by (simp add: EvalPatches_def eval_simps split: prod.splits)

theorem EvalPatches_derivative_error_witness:
  "far_errors (snd (EvalPatches compiled_evaluator 10 packed_desc 11 interleaved_desc 15 0 4 12
      [(1, 2, 3, 4)] 13 14 initial_world))
   = [(FAR_RUNTIME_ERROR, derivative_message)]"
  using EvalPatches_derivative_error [of compiled_evaluator 15 0 10 packed_desc 11
      interleaved_desc 4 12 "[(1, 2, 3, 4)]" 13 14 initial_world]
  by (simp add: compiled_evaluator_def initial_world_def)

text \<open>
  The claim as it stands, for every call, fails: before a patch kernel is compiled the
  call returns false at once, and a requested derivative buffer is not reported.
\<close>

theorem EvalPatches_not_compiled_no_error:
  "(15 :: GLuint) \<noteq> 0
   \<and> EvalPatches new_GLXFBEvaluator 10 packed_desc 11 interleaved_desc 15 0 4 12
        [(1, 2, 3, 4)] 13 14 initial_world
      = (Inr False, initial_world)
   \<and> far_errors initial_world = []"
  by (simp add: EvalPatches_def new_GLXFBEvaluator_def Let_def initial_world_def)

section \<open>What an evaluation leaves behind\<close>

lemma EvalStencils_completed:
  assumes "0 < sint (end - start)"
    and "EvalStencils this srcBuffer srcDesc dstBuffer dstDesc sizesTexture
           offsetsTexture indicesTexture weightsTexture start end s = (Inr True, s')"
  shows "program (stencilKernel this) \<noteq> 0
         \<and> (\<exists>r. c_rem (offset dstDesc) (stride dstDesc) = Inr r)"
  using assms
  by (auto simp add: EvalStencils_def Let_def split: if_splits prod.splits sum.splits)

lemma EvalStencils_state:
  assumes "program (stencilKernel this) \<noteq> 0"
    and "0 < sint (end - start)"
    and "c_rem (offset dstDesc) (stride dstDesc) = Inr r"
  shows "fst (EvalStencils this srcBuffer srcDesc dstBuffer dstDesc sizesTexture
           offsetsTexture indicesTexture weightsTexture start end s) = Inr True"
    and "transform_feedback_buffer_binding (snd (EvalStencils this srcBuffer srcDesc dstBuffer
           dstDesc sizesTexture offsetsTexture indicesTexture weightsTexture start end s)) = 0"
    and "current_program (snd (EvalStencils this srcBuffer srcDesc dstBuffer dstDesc
           sizesTexture offsetsTexture indicesTexture weightsTexture start end s)) = 0"
    and "vertex_array_binding (snd (EvalStencils this srcBuffer srcDesc dstBuffer dstDesc
           sizesTexture offsetsTexture indicesTexture weightsTexture start end s)) = 0"
    and "active_texture (snd (EvalStencils this srcBuffer srcDesc dstBuffer dstDesc
           sizesTexture offsetsTexture indicesTexture weightsTexture start end s)) = 0"
    and "\<not> rasterizer_discard (snd (EvalStencils this srcBuffer srcDesc dstBuffer dstDesc
           sizesTexture offsetsTexture indicesTexture weightsTexture start end s))"
    and "Suc (next_name s) \<notin> vertex_arrays (snd (EvalStencils this srcBuffer srcDesc dstBuffer
           dstDesc sizesTexture offsetsTexture indicesTexture weightsTexture start end s))"
    and "calls (snd (EvalStencils this srcBuffer srcDesc dstBuffer dstDesc sizesTexture
           offsetsTexture indicesTexture weightsTexture start end s)) ! length (calls s)
           = GenVertexArrays (Suc (next_name s))"
    and "last (calls (snd (EvalStencils this srcBuffer srcDesc dstBuffer dstDesc sizesTexture
           offsetsTexture indicesTexture weightsTexture start end s)))
           = DeleteVertexArrays (Suc (next_name s))"
  using assms
  by (simp_all add: EvalStencils_def run_simps nth_append split: prod.splits)

lemma EvalStencils_textures:
  assumes "program (stencilKernel this) \<noteq> 0"
    and "0 < sint (end - start)"
    and "c_rem (offset dstDesc) (stride dstDesc) = Inr r"
    and "unit < 5 \<or> unit = active_texture s"
  shows "texture_binding_buffer (snd (EvalStencils this srcBuffer srcDesc dstBuffer dstDesc
           sizesTexture offsetsTexture indicesTexture weightsTexture start end s)) unit = 0"
proof -
  from assms(4) consider "unit = 0" | "unit = 1" | "unit = 2" | "unit = 3" | "unit = 4"
    | "unit = active_texture s"
    by linarith
  then show ?thesis
    using assms(1-3)
    by cases (simp_all add: EvalStencils_def run_simps split: prod.splits)
qed

lemma EvalPatches_completed:
  assumes "EvalPatches this srcBuffer srcDesc dstBuffer dstDesc duBuffer dvBuffer numPatchCoords
             patchCoordsBuffer patchArrays patchIndexTexture patchParamTexture s = (Inr True, s')"
  shows "program (patchKernel this) \<noteq> 0
         \<and> (\<exists>r. c_rem (offset dstDesc) (stride dstDesc) = Inr r)"
  using assms
  by (auto simp add: EvalPatches_def Let_def split: if_splits prod.splits sum.splits)

lemma EvalPatches_state:
  assumes "program (patchKernel this) \<noteq> 0"
    and "c_rem (offset dstDesc) (stride dstDesc) = Inr r"
  shows "fst (EvalPatches this srcBuffer srcDesc dstBuffer dstDesc duBuffer dvBuffer
           numPatchCoords patchCoordsBuffer patchArrays patchIndexTexture patchParamTexture s)
           = Inr True"
    and "transform_feedback_buffer_binding (snd (EvalPatches this srcBuffer srcDesc dstBuffer
           dstDesc duBuffer dvBuffer numPatchCoords patchCoordsBuffer patchArrays
           patchIndexTexture patchParamTexture s)) = 0"
    and "current_program (snd (EvalPatches this srcBuffer srcDesc dstBuffer dstDesc duBuffer
           dvBuffer numPatchCoords patchCoordsBuffer patchArrays patchIndexTexture
           patchParamTexture s)) = 0"
    and "vertex_array_binding (snd (EvalPatches this srcBuffer srcDesc dstBuffer dstDesc
           duBuffer dvBuffer numPatchCoords patchCoordsBuffer patchArrays patchIndexTexture
           patchParamTexture s)) = 0"
    and "active_texture (snd (EvalPatches this srcBuffer srcDesc dstBuffer dstDesc duBuffer
           dvBuffer numPatchCoords patchCoordsBuffer patchArrays patchIndexTexture
           patchParamTexture s)) = 0"
    and "\<not> rasterizer_discard (snd (EvalPatches this srcBuffer srcDesc dstBuffer dstDesc
           duBuffer dvBuffer numPatchCoords patchCoordsBuffer patchArrays patchIndexTexture
           patchParamTexture s))"
    and "Suc (next_name s) \<notin> vertex_arrays (snd (EvalPatches this srcBuffer srcDesc dstBuffer
           dstDesc duBuffer dvBuffer numPatchCoords patchCoordsBuffer patchArrays
           patchIndexTexture patchParamTexture s))"
    and "calls (snd (EvalPatches this srcBuffer srcDesc dstBuffer dstDesc duBuffer dvBuffer
           numPatchCoords patchCoordsBuffer patchArrays patchIndexTexture patchParamTexture s))
           ! length (calls s) = GenVertexArrays (Suc (next_name s))"
    and "last (calls (snd (EvalPatches this srcBuffer srcDesc dstBuffer dstDesc duBuffer
           dvBuffer numPatchCoords patchCoordsBuffer patchArrays patchIndexTexture
           patchParamTexture s))) = DeleteVertexArrays (Suc (next_name s))"
  using assms
  by (simp_all add: EvalPatches_def run_simps nth_append split: prod.splits)

lemma EvalPatches_textures:
  assumes "program (patchKernel this) \<noteq> 0"
    and "c_rem (offset dstDesc) (stride dstDesc) = Inr r"
    and "unit < 3 \<or> unit = active_texture s"
  shows "texture_binding_buffer (snd (EvalPatches this srcBuffer srcDesc dstBuffer dstDesc
           duBuffer dvBuffer numPatchCoords patchCoordsBuffer patchArrays patchIndexTexture
           patchParamTexture s)) unit = 0"
proof -
  from assms(3) consider "unit = 0" | "unit = 1" | "unit = 2" | "unit = active_texture s"
    by linarith
  then show ?thesis
    using assms(1-2)
    by cases (simp_all add: EvalPatches_def run_simps split: prod.splits)
qed

text \<open>
  \<open>EvalPatches\<close> leaves \<open>GL_ARRAY_BUFFER\<close> bound to the buffer of patch coordinates, and
  both evaluations leave the destination buffer at the indexed transform-feedback binding
  point 0: neither is among the bindings the claim below names.
\<close>

lemma EvalPatches_array_buffer:
  assumes "program (patchKernel this) \<noteq> 0"
    and "c_rem (offset dstDesc) (stride dstDesc) = Inr r"
  shows "array_buffer_binding (snd (EvalPatches this srcBuffer srcDesc dstBuffer dstDesc
           duBuffer dvBuffer numPatchCoords patchCoordsBuffer patchArrays patchIndexTexture
           patchParamTexture s)) = patchCoordsBuffer"
  using assms
  by (simp add: EvalPatches_def run_simps split: prod.splits)

text \<open>
  Claim C10. Every completed evaluation, that is \<open>EvalStencils\<close> with \<open>end - start > 0\<close>
  returning true and \<open>EvalPatches\<close> returning true, leaves the context with: the
  (generic) transform-feedback buffer binding 0; the buffer-texture binding 0 on every
  unit it used (units 0 to 4 for stencils, 0 to 2 for patches, and the unit that was
  active on entry); no program in use; no vertex array bound; texture unit 0 active;
  rasterizer discard disabled; and the vertex array it generated first deleted by its last
  command. These are the GL defaults, whatever was bound before the call.
\<close>

theorem evaluation_resets_bindings:
  "(0 < sint (end - start)
    \<and> EvalStencils this srcBuffer srcDesc dstBuffer dstDesc sizesTexture
        offsetsTexture indicesTexture weightsTexture start end s = (Inr True, s1)
    \<longrightarrow> bindings_reset 5 s s1)
   \<and> (EvalPatches this srcBuffer srcDesc dstBuffer dstDesc duBuffer dvBuffer numPatchCoords
        patchCoordsBuffer patchArrays patchIndexTexture patchParamTexture s = (Inr True, s2)
    \<longrightarrow> bindings_reset 3 s s2)"
proof (intro conjI impI)
  assume a: "0 < sint (end - start)
    \<and> EvalStencils this srcBuffer srcDesc dstBuffer dstDesc sizesTexture
        offsetsTexture indicesTexture weightsTexture start end s = (Inr True, s1)"
  then obtain r where p: "program (stencilKernel this) \<noteq> 0"
    and d: "c_rem (offset dstDesc) (stride dstDesc) = Inr r"
    using EvalStencils_completed by blast
  from a have c: "0 < sint (end - start)"
    by simp
  from a have s1: "s1 = snd (EvalStencils this srcBuffer srcDesc dstBuffer dstDesc sizesTexture
        offsetsTexture indicesTexture weightsTexture start end s)"
    by simp
  have units: "list_all (\<lambda>unit. texture_binding_buffer s1 unit = 0) (active_texture s # [0..<5])"
    unfolding s1 list_all_iff
    using EvalStencils_textures [OF p c d] by auto
  show "bindings_reset 5 s s1"
    unfolding bindings_reset_def
    using units EvalStencils_state [OF p c d]
    unfolding s1 by simp
next
  assume a: "EvalPatches this srcBuffer srcDesc dstBuffer dstDesc duBuffer dvBuffer
        numPatchCoords patchCoordsBuffer patchArrays patchIndexTexture patchParamTexture s
      = (Inr True, s2)"
  then obtain r where p: "program (patchKernel this) \<noteq> 0"
    and d: "c_rem (offset dstDesc) (stride dstDesc) = Inr r"
    using EvalPatches_completed by blast
  from a have s2: "s2 = snd (EvalPatches this srcBuffer srcDesc dstBuffer dstDesc duBuffer
        dvBuffer numPatchCoords patchCoordsBuffer patchArrays patchIndexTexture
        patchParamTexture s)"
    by simp
  have units: "list_all (\<lambda>unit. texture_binding_buffer s2 unit = 0) (active_texture s # [0..<3])"
    unfolding s2 list_all_iff
    using EvalPatches_textures [OF p d] by auto
  show "bindings_reset 3 s s2"
    unfolding bindings_reset_def
    using units EvalPatches_state [OF p d]
    unfolding s2 by simp
qed

theorem evaluation_resets_bindings_witness:
  "fst (EvalStencils compiled_evaluator 10 packed_desc 11 interleaved_desc 6 7 8 9 0 8
          initial_world) = Inr True
   \<and> bindings_reset 5 initial_world
        (snd (EvalStencils compiled_evaluator 10 packed_desc 11 interleaved_desc 6 7 8 9 0 8
          initial_world))
   \<and> fst (EvalPatches compiled_evaluator 10 packed_desc 11 interleaved_desc 0 0 4 12
          [(1, 2, 3, 4)] 13 14 initial_world) = Inr True
   \<and> bindings_reset 3 initial_world
        (snd (EvalPatches compiled_evaluator 10 packed_desc 11 interleaved_desc 0 0 4 12
          [(1, 2, 3, 4)] 13 14 initial_world))"
proof -
  let ?S = "EvalStencils compiled_evaluator 10 packed_desc 11 interleaved_desc 6 7 8 9 0 8
              initial_world"
  let ?P = "EvalPatches compiled_evaluator 10 packed_desc 11 interleaved_desc 0 0 4 12
              [(1, 2, 3, 4)] 13 14 initial_world"
  have c: "0 < sint ((8 :: c_int) - 0)"
    by simp
  have fs: "fst ?S = Inr True"
    by (rule EvalStencils_state(1) [where r = 1])
       (simp_all add: compiled_evaluator_def interleaved_desc_def c_rem_def)
  have fp: "fst ?P = Inr True"
    by (rule EvalPatches_state(1) [where r = 1])
       (simp_all add: compiled_evaluator_def interleaved_desc_def c_rem_def)
  have es: "?S = (Inr True, snd ?S)"
    using fs by (simp add: prod_eq_iff)
  have ep: "?P = (Inr True, snd ?P)"
    using fp by (simp add: prod_eq_iff)
  have "bindings_reset 5 initial_world (snd ?S)"
    using evaluation_resets_bindings [THEN conjunct1, rule_format, OF conjI, OF c es] .
  moreover have "bindings_reset 3 initial_world (snd ?P)"
    using evaluation_resets_bindings [THEN conjunct2, rule_format, OF ep] .
  ultimately show ?thesis
    using fs fp by simp
qed

section \<open>GLStencilTableTBO\<close>

text \<open>
  Claim C9. For every stencil table with \<open>GetNumStencils() == 0\<close> the constructor
  returns an object whose four texture handles are 0 and leaves the context as it was
  (nothing is uploaded); the destructor of any object issues \<open>glDeleteTextures\<close> for
  exactly its nonzero handles (in the order sizes, offsets, weights, indices); so the
  destructor of the object made from an empty table leaves the context as it was.
\<close>

theorem empty_table_has_no_textures:
  assumes "GetNumStencils stencilTable = 0"
  shows "(\<exists>tbo. new_GLStencilTableTBO drv stencilTable s = (Inr tbo, s)
            \<and> sizes tbo = 0 \<and> offsets tbo = 0 \<and> indices tbo = 0 \<and> weights tbo = 0
            \<and> delete_GLStencilTableTBO tbo s = s)
         \<and> calls (delete_GLStencilTableTBO this s)
           = calls s @ map DeleteTextures
               (filter (\<lambda>texture. texture \<noteq> 0)
                  [sizes this, offsets this, weights this, indices this])"
  using assms
  by (simp add: new_GLStencilTableTBO_def delete_GLStencilTableTBO_def Let_def gl_simps)

theorem empty_table_has_no_textures_witness:
  "(\<exists>tbo. new_GLStencilTableTBO linking_driver
           \<lparr>GetNumStencils = 0, GetSizes = [], GetOffsets = [], GetControlIndices = [],
            GetWeights = []\<rparr> initial_world = (Inr tbo, initial_world)
         \<and> sizes tbo = 0 \<and> offsets tbo = 0 \<and> indices tbo = 0 \<and> weights tbo = 0
         \<and> delete_GLStencilTableTBO tbo initial_world = initial_world)
   \<and> calls (delete_GLStencilTableTBO
         \<lparr>sizes = 2, offsets = 0, indices = 6, weights = 8, numStencils = 1\<rparr> initial_world)
     = [DeleteTextures 2, DeleteTextures 8, DeleteTextures 6]"
  using empty_table_has_no_textures [of
      "\<lparr>GetNumStencils = 0, GetSizes = [], GetOffsets = [], GetControlIndices = [],
        GetWeights = []\<rparr>"
      linking_driver initial_world
      "\<lparr>sizes = 2, offsets = 0, indices = 6, weights = 8, numStencils = 1\<rparr>"]
  by (simp add: initial_world_def)

section \<open>compileKernel\<close>

subsection \<open>Decimal output\<close>

lemma of_char_digit_char: "d < 10 \<Longrightarrow> of_char (digit_char d) = (48 + d :: nat)"
  by (simp add: digit_char_def)

lemma decimal_value_snoc:
  "decimal_value (ds @ [c]) = 10 * decimal_value ds + (of_char c - 48)"
  by (simp add: decimal_value_def)

text \<open>The digits printed for \<open>n\<close> denote \<open>n\<close>.\<close>

lemma decimal_value_digits_of_nat: "decimal_value (digits_of_nat n) = n"
proof (induction n rule: digits_of_nat.induct)
  case (1 n)
  show ?case
  proof (cases "n < 10")
    case True
    then show ?thesis
      by (subst digits_of_nat.simps) (simp add: decimal_value_def of_char_digit_char)
  next
    case False
    then have "decimal_value (digits_of_nat n)
        = 10 * decimal_value (digits_of_nat (n div 10)) + (of_char (digit_char (n mod 10)) - 48)"
      by (subst digits_of_nat.simps) (simp add: decimal_value_snoc)
    also have "\<dots> = 10 * (n div 10) + n mod 10"
      using "1.IH" [OF False] by (simp add: of_char_digit_char)
    finally show ?thesis
      by simp
  qed
qed

text \<open>The digits printed for \<open>n\<close> are a numeral, and the numeral of \<open>n\<close>.\<close>

lemma is_digit_digit_char: "d < 10 \<Longrightarrow> is_digit (digit_char d)"
  by (simp add: is_digit_def of_char_digit_char)

lemma digit_char_of_char: "is_digit c \<Longrightarrow> digit_char (of_char c - 48) = c"
  by (simp add: is_digit_def digit_char_def)

lemma digit_char_0: "digit_char 0 = CHR ''0''"
  by code_simp

lemma char_of_48: "char_of (48 :: nat) = CHR ''0''"
  by code_simp

lemma digits_of_nat_nonempty: "digits_of_nat n \<noteq> []"
  by (subst digits_of_nat.simps) simp

lemma digits_of_nat_digits: "list_all is_digit (digits_of_nat n)"
proof (induction n rule: digits_of_nat.induct)
  case (1 n)
  show ?case
  proof (cases "n < 10")
    case True
    then show ?thesis
      by (subst digits_of_nat.simps) (simp add: is_digit_digit_char)
  next
    case False
    with "1.IH" show ?thesis
      by (subst digits_of_nat.simps) (simp add: is_digit_digit_char)
  qed
qed

lemma hd_digits_of_nat: "0 < n \<Longrightarrow> hd (digits_of_nat n) \<noteq> CHR ''0''"
proof (induction n rule: digits_of_nat.induct)
  case (1 n)
  show ?case
  proof (cases "n < 10")
    case True
    have "of_char (digit_char n) \<noteq> (of_char (CHR ''0'') :: nat)"
      using True "1.prems" by (simp add: of_char_digit_char)
    then have "digit_char n \<noteq> CHR ''0''"
      by auto
    with True show ?thesis
      by (subst digits_of_nat.simps) simp
  next
    case False
    then have "hd (digits_of_nat (n div 10)) \<noteq> CHR ''0''"
      by (intro "1.IH") simp_all
    with False show ?thesis
      by (subst digits_of_nat.simps) (simp add: digits_of_nat_nonempty)
  qed
qed

lemma nat_of_decimal_digits_of_nat: "nat_of_decimal (digits_of_nat n) = Some n"
proof (cases "n = 0")
  case True
  have "digits_of_nat 0 = ''0''"
    by (subst digits_of_nat.simps) (simp add: digit_char_0)
  moreover have "decimal_value ''0'' = 0"
    by (simp add: decimal_value_def)
  ultimately show ?thesis
    using True by (simp add: nat_of_decimal_def is_digit_def)
next
  case False
  then have "hd (digits_of_nat n) \<noteq> CHR ''0''"
    by (intro hd_digits_of_nat) simp
  then show ?thesis
    by (simp add: nat_of_decimal_def decimal_value_digits_of_nat digits_of_nat_nonempty
          digits_of_nat_digits)
qed

text \<open>What \<open>operator<<\<close> prints for an \<open>int\<close> is the numeral of this \<open>int\<close>.\<close>

lemma int_of_decimal_show_int: "int_of_decimal (show_int i) = Some i"
proof (cases "i < 0")
  case True
  then show ?thesis
    by (simp add: int_of_decimal_def show_int_def nat_of_decimal_digits_of_nat)
next
  case False
  obtain c ds where ds: "digits_of_nat (nat i) = c # ds"
    using digits_of_nat_nonempty [of "nat i"] by (cases "digits_of_nat (nat i)") simp_all
  have "is_digit c"
    using digits_of_nat_digits [of "nat i"] by (simp add: ds)
  then have "c \<noteq> CHR ''-''"
    by (auto simp add: is_digit_def)
  moreover have "nat_of_decimal (c # ds) = Some (nat i)"
    using nat_of_decimal_digits_of_nat [of "nat i"] by (simp add: ds)
  ultimately show ?thesis
    using False by (simp add: int_of_decimal_def show_int_def ds)
qed

text \<open>A numeral is determined by the number it denotes.\<close>

lemma decimal_value_positive:
  assumes "ds \<noteq> []"
    and "list_all is_digit ds"
    and "hd ds \<noteq> CHR ''0''"
  shows "0 < decimal_value ds"
  using assms
proof (induction ds rule: rev_nonempty_induct)
  case (single c)
  have "of_char c \<noteq> (48 :: nat)"
  proof
    assume "of_char c = (48 :: nat)"
    then have "char_of (of_char c :: nat) = char_of (48 :: nat)"
      by simp
    then have "c = CHR ''0''"
      by (simp add: char_of_48)
    with single show False
      by simp
  qed
  with single show ?case
    by (simp add: decimal_value_def is_digit_def)
next
  case (snoc c ds)
  then have "0 < decimal_value ds"
    by simp
  then show ?case
    by (simp add: decimal_value_snoc)
qed

lemma digits_of_nat_decimal_value:
  assumes "ds \<noteq> []"
    and "list_all is_digit ds"
    and "ds = ''0'' \<or> hd ds \<noteq> CHR ''0''"
  shows "digits_of_nat (decimal_value ds) = ds"
  using assms
proof (induction ds rule: rev_nonempty_induct)
  case (single c)
  then have "is_digit c"
    by simp
  then have "of_char c - 48 < (10 :: nat)"
    unfolding is_digit_def by linarith
  then have "digits_of_nat (decimal_value [c]) = [digit_char (of_char c - 48)]"
    by (subst digits_of_nat.simps) (simp add: decimal_value_def)
  with \<open>is_digit c\<close> show ?case
    by (simp add: digit_char_of_char)
next
  case (snoc c ds)
  from snoc.hyps(1) snoc.prems(2) have first: "hd ds \<noteq> CHR ''0''"
    by (cases ds) simp_all
  from snoc.prems(1) have digits: "list_all is_digit ds" and c: "is_digit c"
    by simp_all
  from snoc.hyps(1) digits first have positive: "0 < decimal_value ds"
    by (rule decimal_value_positive)
  from snoc.IH digits first have ih: "digits_of_nat (decimal_value ds) = ds"
    by simp
  from c have d: "of_char c - 48 < (10 :: nat)"
    unfolding is_digit_def by linarith
  let ?n = "10 * decimal_value ds + (of_char c - 48)"
  from positive have "\<not> ?n < 10"
    by simp
  then have "digits_of_nat ?n = digits_of_nat (?n div 10) @ [digit_char (?n mod 10)]"
    by (subst digits_of_nat.simps) simp
  also from d have "?n div 10 = decimal_value ds"
    by simp
  also from d have "?n mod 10 = of_char c - 48"
    by simp
  finally show ?case
    using ih c by (simp add: decimal_value_snoc digit_char_of_char)
qed

lemma int_of_decimal_unique:
  assumes "int_of_decimal str = Some i"
  shows "str = show_int i"
proof (cases str)
  case Nil
  with assms show ?thesis
    by (simp add: int_of_decimal_def)
next
  case (Cons c ds)
  show ?thesis
  proof (cases "c = CHR ''-''")
    case True
    with assms Cons obtain n where n: "nat_of_decimal ds = Some n" "n \<noteq> 0" "i = - int n"
      by (auto simp add: int_of_decimal_def split: option.splits if_splits)
    from n(1) have "digits_of_nat n = ds"
      by (auto simp add: nat_of_decimal_def digits_of_nat_decimal_value split: if_splits)
    with n(2,3) Cons True show ?thesis
      by (simp add: show_int_def)
  next
    case False
    with assms Cons obtain n where n: "nat_of_decimal str = Some n" "i = int n"
      by (auto simp add: int_of_decimal_def)
    from n(1) have "digits_of_nat n = str"
      by (auto simp add: nat_of_decimal_def digits_of_nat_decimal_value split: if_splits)
    with n(2) show ?thesis
      by (simp add: show_int_def)
  qed
qed

lemma length_digits_of_nat: "n < 10 ^ Suc k \<Longrightarrow> length (digits_of_nat n) \<le> Suc k"
proof (induction k arbitrary: n)
  case 0
  then show ?case
    by (subst digits_of_nat.simps) simp
next
  case (Suc k)
  show ?case
  proof (cases "n < 10")
    case True
    then show ?thesis
      by (subst digits_of_nat.simps) simp
  next
    case False
    from Suc.prems have "n div 10 < 10 ^ Suc k"
      by (simp add: less_mult_imp_div_less)
    then have "length (digits_of_nat (n div 10)) \<le> Suc k"
      by (rule Suc.IH)
    with False show ?thesis
      by (subst digits_of_nat.simps) simp
  qed
qed

text \<open>
  The 32 bytes of \<open>attrName\<close> are enough for every index an \<open>int\<close> can hold: the name is
  never cut.
\<close>

lemma attrName_uncut:
  assumes "k < 2 ^ 31"
  shows "attrName (int k) = ''outVertexBuffer['' @ digits_of_nat k @ '']''"
proof -
  from assms have "k < 10 ^ Suc 9"
    by simp
  then have "length (digits_of_nat k) \<le> Suc 9"
    by (rule length_digits_of_nat)
  then show ?thesis
    by (simp add: attrName_def show_int_def)
qed

subsection \<open>The loops\<close>

lemma push_skips_eq:
  "push_skips i n outputs = outputs @ replicate (nat (n - i)) ''gl_SkipComponents1''"
proof (induction i n outputs rule: push_skips.induct)
  case (1 i n outputs)
  show ?case
  proof (cases "i < n")
    case True
    then have "nat (n - i) = Suc (nat (n - (i + 1)))"
      by simp
    with True "1.IH" show ?thesis
      by (subst push_skips.simps) simp
  next
    case False
    then show ?thesis
      by (subst push_skips.simps) simp
  qed
qed

lemma push_attrs_eq:
  "push_attrs i n outputs = outputs @ map (\<lambda>k. attrName (i + int k)) [0..<nat (n - i)]"
proof (induction i n outputs rule: push_attrs.induct)
  case (1 i n outputs)
  show ?case
  proof (cases "i < n")
    case True
    then have "nat (n - i) = Suc (nat (n - (i + 1)))"
      by simp
    with True "1.IH" show ?thesis
      by (subst push_attrs.simps) (simp add: map_upt_Suc add.assoc del: upt_Suc)
  next
    case False
    then show ?thesis
      by (subst push_attrs.simps) simp
  qed
qed

subsection \<open>The commands of compileKernel\<close>

text \<open>Without a remainder \<open>dstDesc.offset % dstDesc.stride\<close> the function does not return.\<close>

lemma compileKernel_undefined_remainder:
  assumes "c_rem (offset dstDesc) (stride dstDesc) = Inl e"
  shows "fst (compileKernel drv shaderSource srcDesc dstDesc kernelDefine s) = Inl e"
  using assms
  by (simp add: compileKernel_def Let_def split: prod.splits)

lemma compileKernel_calls:
  assumes "c_rem (offset dstDesc) (stride dstDesc) = Inr r"
  shows "calls (snd (compileKernel drv shaderSource srcDesc dstDesc kernelDefine s)) =
         calls s
         @ [CreateProgram (Suc (next_name s)),
            CreateShader GL_VERTEX_SHADER (Suc (Suc (next_name s))),
            ShaderSource (Suc (Suc (next_name s))) 3
              [''#version 410'' @ newline,
               ''#define LENGTH '' @ show_int (sint (length' srcDesc)) @ newline
               @ ''#define SRC_STRIDE '' @ show_int (sint (stride srcDesc)) @ newline
               @ kernelDefine @ newline,
               shaderSource],
            CompileShader (Suc (Suc (next_name s))),
            AttachShader (Suc (next_name s)) (Suc (Suc (next_name s))),
            TransformFeedbackVaryings (Suc (next_name s))
              (word_of_nat (length
                 (push_skips (sint (r + length' dstDesc)) (sint (stride dstDesc))
                    (push_attrs 0 (sint (length' dstDesc)) (push_skips 0 (sint r) [])))))
              (push_skips (sint (r + length' dstDesc)) (sint (stride dstDesc))
                 (push_attrs 0 (sint (length' dstDesc)) (push_skips 0 (sint r) [])))
              GL_INTERLEAVED_ATTRIBS,
            LinkProgram (Suc (next_name s)),
            GetProgramiv (Suc (next_name s)) GL_LINK_STATUS]
         @ (if link_status drv (Suc (next_name s)) then []
            else [GetShaderInfoLog (Suc (Suc (next_name s))) 1024,
                  GetProgramInfoLog (Suc (next_name s)) 1024,
                  DeleteProgram (Suc (next_name s))])
         @ [DeleteShader (Suc (Suc (next_name s)))]"
  using assms
  by (simp add: compileKernel_def Let_def gl_simps split: prod.splits)

lemma compileKernel_result:
  assumes "c_rem (offset dstDesc) (stride dstDesc) = Inr r"
  shows "fst (compileKernel drv shaderSource srcDesc dstDesc kernelDefine s)
           = Inr (if link_status drv (Suc (next_name s)) then Suc (next_name s) else 0)"
    and "next_name (snd (compileKernel drv shaderSource srcDesc dstDesc kernelDefine s))
           = Suc (Suc (next_name s))"
    and "far_errors (snd (compileKernel drv shaderSource srcDesc dstDesc kernelDefine s))
           = far_errors s
             @ (if link_status drv (Suc (next_name s)) then []
                else [(FAR_RUNTIME_ERROR,
                         take 1023 (shader_info_log drv (Suc (Suc (next_name s))))),
                      (FAR_RUNTIME_ERROR,
                         take 1023 (program_info_log drv (Suc (next_name s))))])"
  using assms
  by (simp_all add: compileKernel_def Let_def gl_simps split: prod.splits)

text \<open>
  Claim C4. For every source descriptor, \<open>compileKernel\<close> passes the compiler exactly one
  shader source, of exactly three strings in this order: the line \<open>#version 410\<close>; the
  defines block, which is \<open>#define LENGTH \<close> and the decimal numeral of \<open>srcDesc.length\<close>,
  \<open>#define SRC_STRIDE \<close> and the decimal numeral of \<open>srcDesc.stride\<close>, and the
  kernel-selecting define; and the embedded kernel source. The version line and each of
  the three defines end in a line feed (character 10). (This holds for every destination
  descriptor too: the source is passed before the destination layout is looked at.)
\<close>

theorem compileKernel_shader_source:
  "\<exists>len str.
     filter is_shader_source_call
       (calls (snd (compileKernel drv shaderSource srcDesc dstDesc kernelDefine s)))
     = filter is_shader_source_call (calls s)
       @ [ShaderSource (Suc (Suc (next_name s))) 3
            [''#version 410'' @ [CHR 0x0A],
             ''#define LENGTH '' @ len @ [CHR 0x0A]
             @ ''#define SRC_STRIDE '' @ str @ [CHR 0x0A]
             @ kernelDefine @ [CHR 0x0A],
             shaderSource]]
     \<and> int_of_decimal len = Some (sint (length' srcDesc))
     \<and> int_of_decimal str = Some (sint (stride srcDesc))"
proof -
  have "filter is_shader_source_call
       (calls (snd (compileKernel drv shaderSource srcDesc dstDesc kernelDefine s)))
     = filter is_shader_source_call (calls s)
       @ [ShaderSource (Suc (Suc (next_name s))) 3
            [''#version 410'' @ [CHR 0x0A],
             ''#define LENGTH '' @ show_int (sint (length' srcDesc)) @ [CHR 0x0A]
             @ ''#define SRC_STRIDE '' @ show_int (sint (stride srcDesc)) @ [CHR 0x0A]
             @ kernelDefine @ [CHR 0x0A],
             shaderSource]]"
    by (simp add: compileKernel_def Let_def gl_simps is_shader_source_call_def newline_def
          split: prod.splits sum.splits)
  then show ?thesis
    using int_of_decimal_show_int by blast
qed

text \<open>
  The theorem at work, for the source layout "three floats at offset 1 of six": the
  numerals are \<open>3\<close> and \<open>6\<close>, since a numeral is determined by the number it denotes.
\<close>

theorem compileKernel_shader_source_witness:
  "filter is_shader_source_call
     (calls (snd (compileKernel linking_driver ''void main() {}'' interleaved_desc packed_desc
        ''#define OPENSUBDIV_GLSL_XFB_KERNEL_EVAL_STENCILS'' initial_world)))
   = [ShaderSource 2 3
        [''#version 410'' @ [CHR 0x0A],
         ''#define LENGTH 3'' @ [CHR 0x0A] @ ''#define SRC_STRIDE 6'' @ [CHR 0x0A]
         @ ''#define OPENSUBDIV_GLSL_XFB_KERNEL_EVAL_STENCILS'' @ [CHR 0x0A],
         ''void main() {}'']]"
proof -
  from compileKernel_shader_source [of linking_driver "''void main() {}''" interleaved_desc
      packed_desc "''#define OPENSUBDIV_GLSL_XFB_KERNEL_EVAL_STENCILS''" initial_world]
  obtain len str where
    source: "filter is_shader_source_call
       (calls (snd (compileKernel linking_driver ''void main() {}'' interleaved_desc
          packed_desc ''#define OPENSUBDIV_GLSL_XFB_KERNEL_EVAL_STENCILS'' initial_world)))
     = filter is_shader_source_call (calls initial_world)
       @ [ShaderSource (Suc (Suc (next_name initial_world))) 3
            [''#version 410'' @ [CHR 0x0A],
             ''#define LENGTH '' @ len @ [CHR 0x0A]
             @ ''#define SRC_STRIDE '' @ str @ [CHR 0x0A]
             @ ''#define OPENSUBDIV_GLSL_XFB_KERNEL_EVAL_STENCILS'' @ [CHR 0x0A],
             ''void main() {}'']]"
    and len: "int_of_decimal len = Some (sint (length' interleaved_desc))"
    and str: "int_of_decimal str = Some (sint (stride interleaved_desc))"
    by blast
  have three: "show_int 3 = ''3''" and six: "show_int 6 = ''6''"
    by code_simp+
  from len have "len = show_int 3"
    by (intro int_of_decimal_unique) (simp add: interleaved_desc_def)
  moreover from str have "str = show_int 6"
    by (intro int_of_decimal_unique) (simp add: interleaved_desc_def)
  ultimately show ?thesis
    using source by (simp add: three six initial_world_def)
qed

subsection \<open>The transform-feedback varyings\<close>

lemma compileKernel_varyings:
  assumes "c_rem (offset dstDesc) (stride dstDesc) = Inr r"
  shows "filter is_varyings_call
           (calls (snd (compileKernel drv shaderSource srcDesc dstDesc kernelDefine s)))
         = filter is_varyings_call (calls s)
           @ [TransformFeedbackVaryings (Suc (next_name s))
                (word_of_nat (length
                   (push_skips (sint (r + length' dstDesc)) (sint (stride dstDesc))
                      (push_attrs 0 (sint (length' dstDesc)) (push_skips 0 (sint r) [])))))
                (push_skips (sint (r + length' dstDesc)) (sint (stride dstDesc))
                   (push_attrs 0 (sint (length' dstDesc)) (push_skips 0 (sint r) [])))
                GL_INTERLEAVED_ATTRIBS]"
  by (simp add: compileKernel_calls [OF assms] is_varyings_call_def)

lemma sint_add_in_range:
  fixes a b :: c_int
  assumes "0 \<le> sint a" "0 \<le> sint b" "sint a + sint b < 2 ^ 31"
  shows "sint (a + b) = sint a + sint b"
proof -
  have "sint (a + b) = signed_take_bit 31 (sint a + sint b)"
    by (simp add: sint_word_ariths)
  also have "\<dots> = sint a + sint b"
    using assms by (simp add: signed_take_bit_int_eq_self)
  finally show ?thesis .
qed

lemma varyings_layout:
  fixes r len str :: c_int
  assumes "0 \<le> sint r" "0 \<le> sint len" "sint r + sint len \<le> sint str"
  shows "push_skips (sint (r + len)) (sint str)
           (push_attrs 0 (sint len) (push_skips 0 (sint r) []))
         = replicate (nat (sint r)) ''gl_SkipComponents1''
           @ map (\<lambda>i. ''outVertexBuffer['' @ digits_of_nat i @ '']'') [0..<nat (sint len)]
           @ replicate (nat (sint str - sint r - sint len)) ''gl_SkipComponents1''"
proof -
  have str: "sint str < 2 ^ 31"
    using sint_lt [of str] by simp
  have sum: "sint (r + len) = sint r + sint len"
    using assms str by (intro sint_add_in_range) simp_all
  have attrs: "map (\<lambda>k. attrName (int k)) [0..<nat (sint len)]
        = map (\<lambda>i. ''outVertexBuffer['' @ digits_of_nat i @ '']'') [0..<nat (sint len)]"
  proof (rule map_cong [OF refl])
    fix k assume "k \<in> set [0..<nat (sint len)]"
    then have "int k < sint len"
      by simp
    also have "\<dots> < 2 ^ 31"
      using sint_lt [of len] by simp
    finally have "k < 2 ^ 31"
      by simp
    then show "attrName (int k) = ''outVertexBuffer['' @ digits_of_nat k @ '']''"
      by (rule attrName_uncut)
  qed
  have "push_attrs 0 (sint len) (push_skips 0 (sint r) [])
        = replicate (nat (sint r)) ''gl_SkipComponents1''
          @ map (\<lambda>i. ''outVertexBuffer['' @ digits_of_nat i @ '']'') [0..<nat (sint len)]"
    unfolding push_skips_eq push_attrs_eq using attrs by simp
  moreover have "nat (sint str - sint (r + len)) = nat (sint str - sint r - sint len)"
    unfolding sum by (simp add: algebra_simps)
  ultimately show ?thesis
    by (simp add: push_skips_eq)
qed

text \<open>
  Claim C2, as amended. For every destination descriptor with \<open>dstDesc.stride > 0\<close>,
  \<open>dstDesc.offset % dstDesc.stride \<ge> 0\<close>, \<open>dstDesc.length \<ge> 0\<close> and
  \<open>(dstDesc.offset % dstDesc.stride) + dstDesc.length \<le> dstDesc.stride\<close>, \<open>compileKernel\<close>
  declares exactly \<open>dstDesc.stride\<close> transform-feedback varyings in interleaved mode:
  first \<open>dstDesc.offset % dstDesc.stride\<close> entries \<open>gl_SkipComponents1\<close>, then the
  \<open>dstDesc.length\<close> entries \<open>outVertexBuffer[0]\<close> to
  \<open>outVertexBuffer[dstDesc.length - 1]\<close> in index order, then \<open>gl_SkipComponents1\<close> up to
  \<open>dstDesc.stride\<close>.
\<close>

theorem compileKernel_declares_varyings:
  assumes "0 < sint (stride dstDesc)"
    and "c_rem (offset dstDesc) (stride dstDesc) = Inr r"
    and "0 \<le> sint r"
    and "0 \<le> sint (length' dstDesc)"
    and "sint r + sint (length' dstDesc) \<le> sint (stride dstDesc)"
  shows "filter is_varyings_call
           (calls (snd (compileKernel drv shaderSource srcDesc dstDesc kernelDefine s)))
         = filter is_varyings_call (calls s)
           @ [TransformFeedbackVaryings (Suc (next_name s)) (stride dstDesc)
                (replicate (nat (sint r)) ''gl_SkipComponents1''
                 @ map (\<lambda>i. ''outVertexBuffer['' @ digits_of_nat i @ '']'')
                     [0..<nat (sint (length' dstDesc))]
                 @ replicate (nat (sint (stride dstDesc) - sint r - sint (length' dstDesc)))
                     ''gl_SkipComponents1'')
                GL_INTERLEAVED_ATTRIBS]
         \<and> length
             (replicate (nat (sint r)) ''gl_SkipComponents1''
              @ map (\<lambda>i. ''outVertexBuffer['' @ digits_of_nat i @ '']'')
                  [0..<nat (sint (length' dstDesc))]
              @ replicate (nat (sint (stride dstDesc) - sint r - sint (length' dstDesc)))
                  ''gl_SkipComponents1'')
           = nat (sint (stride dstDesc))"
proof -
  let ?outputs =
    "replicate (nat (sint r)) ''gl_SkipComponents1''
     @ map (\<lambda>i. ''outVertexBuffer['' @ digits_of_nat i @ '']'')
         [0..<nat (sint (length' dstDesc))]
     @ replicate (nat (sint (stride dstDesc) - sint r - sint (length' dstDesc)))
         ''gl_SkipComponents1''"
  have layout: "push_skips (sint (r + length' dstDesc)) (sint (stride dstDesc))
           (push_attrs 0 (sint (length' dstDesc)) (push_skips 0 (sint r) [])) = ?outputs"
    using assms(3-5) by (rule varyings_layout)
  have len: "length ?outputs = nat (sint (stride dstDesc))"
    using assms(1,3-5) by simp
  have "word_of_nat (length ?outputs) = (word_of_int (sint (stride dstDesc)) :: c_int)"
    unfolding len using assms(1) by (simp add: word_of_int_nat)
  then have count: "word_of_nat (length ?outputs) = stride dstDesc"
    by simp
  show ?thesis
    using compileKernel_varyings [OF assms(2), of drv shaderSource srcDesc kernelDefine s]
    unfolding layout count using len by simp
qed

text \<open>
  The theorem at work: three floats at offset 1 of a vertex of six (offset 7 is one
  vertex further). One component is skipped, three are written, two are skipped.
\<close>

theorem compileKernel_declares_varyings_witness:
  "filter is_varyings_call
     (calls (snd (compileKernel linking_driver ''void main() {}'' packed_desc interleaved_desc
        ''#define OPENSUBDIV_GLSL_XFB_KERNEL_EVAL_STENCILS'' initial_world)))
   = [TransformFeedbackVaryings 1 6
        [''gl_SkipComponents1'', ''outVertexBuffer[0]'', ''outVertexBuffer[1]'',
         ''outVertexBuffer[2]'', ''gl_SkipComponents1'', ''gl_SkipComponents1'']
        GL_INTERLEAVED_ATTRIBS]"
proof -
  have r: "c_rem (offset interleaved_desc) (stride interleaved_desc) = Inr 1"
    by (simp add: c_rem_def interleaved_desc_def)
  have names: "map (\<lambda>i. ''outVertexBuffer['' @ digits_of_nat i @ '']'') [0..<3]
        = [''outVertexBuffer[0]'', ''outVertexBuffer[1]'', ''outVertexBuffer[2]'']"
    by code_simp
  have skip2: "replicate 2 ''gl_SkipComponents1''
        = [''gl_SkipComponents1'', ''gl_SkipComponents1'']"
    by code_simp
  from compileKernel_declares_varyings [OF _ r, of linking_driver "''void main() {}''"
      packed_desc "''#define OPENSUBDIV_GLSL_XFB_KERNEL_EVAL_STENCILS''" initial_world]
    names skip2
  show ?thesis
    by (simp add: interleaved_desc_def initial_world_def)
qed

text \<open>
  The claim as it stands, without the two conditions \<open>\<ge> 0\<close>, fails. The first descriptor
  has \<open>stride = 4 > 0\<close> and \<open>offset % stride + length = -1 + 1 \<le> 4\<close>, and gets five
  varyings, the first of them not a skip; the second has \<open>stride = 2 > 0\<close> and
  \<open>offset % stride + length = 0 + -1 \<le> 2\<close>, and gets three.
\<close>

theorem compileKernel_negative_fields:
  "0 < sint (stride negative_offset_desc)
   \<and> c_rem (offset negative_offset_desc) (stride negative_offset_desc) = Inr (- 1)
   \<and> sint (- 1 :: c_int) + sint (length' negative_offset_desc)
       \<le> sint (stride negative_offset_desc)
   \<and> filter is_varyings_call
        (calls (snd (compileKernel linking_driver ''void main() {}'' packed_desc
           negative_offset_desc ''#define OPENSUBDIV_GLSL_XFB_KERNEL_EVAL_STENCILS''
           initial_world)))
      = [TransformFeedbackVaryings 1 5
           [''outVertexBuffer[0]'', ''gl_SkipComponents1'', ''gl_SkipComponents1'',
            ''gl_SkipComponents1'', ''gl_SkipComponents1'']
           GL_INTERLEAVED_ATTRIBS]
   \<and> 0 < sint (stride negative_length_desc)
   \<and> c_rem (offset negative_length_desc) (stride negative_length_desc) = Inr 0
   \<and> sint (0 :: c_int) + sint (length' negative_length_desc)
       \<le> sint (stride negative_length_desc)
   \<and> filter is_varyings_call
        (calls (snd (compileKernel linking_driver ''void main() {}'' packed_desc
           negative_length_desc ''#define OPENSUBDIV_GLSL_XFB_KERNEL_EVAL_STENCILS''
           initial_world)))
      = [TransformFeedbackVaryings 1 3
           [''gl_SkipComponents1'', ''gl_SkipComponents1'', ''gl_SkipComponents1'']
           GL_INTERLEAVED_ATTRIBS]"
proof -
  have r1: "c_rem (offset negative_offset_desc) (stride negative_offset_desc) = Inr (- 1)"
    by (simp add: c_rem_def negative_offset_desc_def)
  have r2: "c_rem (offset negative_length_desc) (stride negative_length_desc) = Inr 0"
    by (simp add: c_rem_def negative_length_desc_def)
  have o1: "push_skips (sint (- 1 + 1 :: c_int)) (sint (4 :: c_int))
              (push_attrs 0 (sint (1 :: c_int)) (push_skips 0 (sint (- 1 :: c_int)) []))
            = [''outVertexBuffer[0]'', ''gl_SkipComponents1'', ''gl_SkipComponents1'',
               ''gl_SkipComponents1'', ''gl_SkipComponents1'']"
    by code_simp
  have o2: "push_skips (sint (0 + - 1 :: c_int)) (sint (2 :: c_int))
              (push_attrs 0 (sint (- 1 :: c_int)) (push_skips 0 (sint (0 :: c_int)) []))
            = [''gl_SkipComponents1'', ''gl_SkipComponents1'', ''gl_SkipComponents1'']"
    by code_simp
  have v1: "filter is_varyings_call
        (calls (snd (compileKernel linking_driver ''void main() {}'' packed_desc
           negative_offset_desc ''#define OPENSUBDIV_GLSL_XFB_KERNEL_EVAL_STENCILS''
           initial_world)))
      = [TransformFeedbackVaryings 1 5
           [''outVertexBuffer[0]'', ''gl_SkipComponents1'', ''gl_SkipComponents1'',
            ''gl_SkipComponents1'', ''gl_SkipComponents1'']
           GL_INTERLEAVED_ATTRIBS]"
    unfolding compileKernel_varyings [OF r1]
    using o1 by (simp add: negative_offset_desc_def initial_world_def)
  have v2: "filter is_varyings_call
        (calls (snd (compileKernel linking_driver ''void main() {}'' packed_desc
           negative_length_desc ''#define OPENSUBDIV_GLSL_XFB_KERNEL_EVAL_STENCILS''
           initial_world)))
      = [TransformFeedbackVaryings 1 3
           [''gl_SkipComponents1'', ''gl_SkipComponents1'', ''gl_SkipComponents1'']
           GL_INTERLEAVED_ATTRIBS]"
    unfolding compileKernel_varyings [OF r2]
    using o2 by (simp add: negative_length_desc_def initial_world_def)
  show ?thesis
    using r1 r2 v1 v2 by (simp add: negative_offset_desc_def negative_length_desc_def)
qed

section \<open>Compile\<close>

subsection \<open>compileKernel, once the remainder of the destination offset is defined\<close>

lemma maybe_delete_program:
  "(if p \<noteq> 0 then glDeleteProgram p s else s)
     = calls_update (\<lambda>cs. cs @ (if p \<noteq> 0 then [DeleteProgram p] else [])) s"
  by (simp add: gl_simps)

lemma compileKernel_eq:
  assumes "c_rem (offset dstDesc) (stride dstDesc) = Inr r"
  shows "compileKernel drv shaderSource srcDesc dstDesc kernelDefine s
         = (Inr (if link_status drv (Suc (next_name s)) then Suc (next_name s) else 0),
            compileKernel_world drv shaderSource srcDesc dstDesc kernelDefine s)"
  using compileKernel_result(1) [OF assms, of drv shaderSource srcDesc kernelDefine s]
  by (simp add: compileKernel_world_def prod_eq_iff)

lemma compileKernel_world:
  assumes "c_rem (offset dstDesc) (stride dstDesc) = Inr r"
  shows "next_name (compileKernel_world drv shaderSource srcDesc dstDesc kernelDefine s)
           = Suc (Suc (next_name s))"
    and "far_errors (compileKernel_world drv shaderSource srcDesc dstDesc kernelDefine s)
           = far_errors s
             @ (if link_status drv (Suc (next_name s)) then []
                else [(FAR_RUNTIME_ERROR,
                         take 1023 (shader_info_log drv (Suc (Suc (next_name s))))),
                      (FAR_RUNTIME_ERROR,
                         take 1023 (program_info_log drv (Suc (next_name s))))])"
  using compileKernel_result(2,3) [OF assms]
  by (simp_all add: compileKernel_world_def)

text \<open>After a failed link the last four commands fetch the two logs and delete the objects.\<close>

lemma compileKernel_world_last_calls:
  assumes "c_rem (offset dstDesc) (stride dstDesc) = Inr r"
    and "\<not> link_status drv (Suc (next_name s))"
  shows "last_calls 4 (calls (compileKernel_world drv shaderSource srcDesc dstDesc kernelDefine s))
         = [GetShaderInfoLog (Suc (Suc (next_name s))) 1024,
            GetProgramInfoLog (Suc (next_name s)) 1024,
            DeleteProgram (Suc (next_name s)),
            DeleteShader (Suc (Suc (next_name s)))]"
proof -
  from compileKernel_calls [OF assms(1)] assms(2) show ?thesis
    by (simp add: compileKernel_world_def last_calls_def)
qed

subsection \<open>The parts of Compile\<close>

lemma cacheStencilUniformLocations_eq:
  "cacheStencilUniformLocations drv k s =
     (k\<lparr>uniformSrcBufferTexture := uniform_location drv (program k) ''vertexBuffer'',
        uniformSrcOffset := uniform_location drv (program k) ''srcOffset'',
        uniformSizesTexture := uniform_location drv (program k) ''sizes'',
        uniformOffsetsTexture := uniform_location drv (program k) ''offsets'',
        uniformIndicesTexture := uniform_location drv (program k) ''indices'',
        uniformWeightsTexture := uniform_location drv (program k) ''weights'',
        uniformStart := uniform_location drv (program k) ''batchStart'',
        uniformEnd := uniform_location drv (program k) ''batchEnd''\<rparr>,
      calls_update (\<lambda>cs. cs @ map (GetUniformLocation (program k))
        [''vertexBuffer'', ''srcOffset'', ''sizes'', ''offsets'', ''indices'', ''weights'',
         ''batchStart'', ''batchEnd'']) s)"
  by (simp add: cacheStencilUniformLocations_def Let_def gl_simps)

lemma cachePatchUniformLocations_eq:
  "cachePatchUniformLocations drv k s =
     (k\<lparr>uniformSrcBufferTexture := uniform_location drv (program k) ''vertexBuffer'',
        uniformSrcOffset := uniform_location drv (program k) ''srcOffset'',
        uniformPatchArray := uniform_location drv (program k) ''patchArray'',
        uniformPatchParamTexture := uniform_location drv (program k) ''patchParamBuffer'',
        uniformPatchIndexTexture := uniform_location drv (program k) ''patchIndexBuffer''\<rparr>,
      calls_update (\<lambda>cs. cs @ map (GetUniformLocation (program k))
        [''vertexBuffer'', ''srcOffset'', ''patchArray'', ''patchParamBuffer'',
         ''patchIndexBuffer'']) s)"
  by (simp add: cachePatchUniformLocations_def Let_def gl_simps)

lemma createStencilKernel_eq:
  assumes "c_rem (offset dstDesc) (stride dstDesc) = Inr r"
  shows "\<exists>this' s'. createStencilKernel drv shaderSource srcDesc dstDesc this s
           = (Inr (link_status drv (Suc (next_name s))), this', s')
         \<and> program (stencilKernel this')
             = (if link_status drv (Suc (next_name s)) then Suc (next_name s) else 0)
         \<and> program (patchKernel this') = program (patchKernel this)
         \<and> next_name s' = Suc (Suc (next_name s))
         \<and> far_errors s'
             = far_errors s
               @ (if link_status drv (Suc (next_name s)) then []
                  else [(FAR_RUNTIME_ERROR,
                           take 1023 (shader_info_log drv (Suc (Suc (next_name s))))),
                        (FAR_RUNTIME_ERROR,
                           take 1023 (program_info_log drv (Suc (next_name s))))])
         \<and> (\<not> link_status drv (Suc (next_name s)) \<longrightarrow>
              last_calls 4 (calls s')
              = [GetShaderInfoLog (Suc (Suc (next_name s))) 1024,
                 GetProgramInfoLog (Suc (next_name s)) 1024,
                 DeleteProgram (Suc (next_name s)),
                 DeleteShader (Suc (Suc (next_name s)))])"
  by (simp add: createStencilKernel_def Let_def maybe_delete_program
        compileKernel_eq [OF assms] compileKernel_world [OF assms]
        compileKernel_world_last_calls [OF assms] cacheStencilUniformLocations_eq gl_simps)

lemma createPatchKernel_eq:
  assumes "c_rem (offset dstDesc) (stride dstDesc) = Inr r"
  shows "\<exists>this' s'. createPatchKernel drv shaderSource srcDesc dstDesc this s
           = (Inr (link_status drv (Suc (next_name s))), this', s')
         \<and> program (patchKernel this')
             = (if link_status drv (Suc (next_name s)) then Suc (next_name s) else 0)
         \<and> program (stencilKernel this') = program (stencilKernel this)
         \<and> next_name s' = Suc (Suc (next_name s))
         \<and> far_errors s'
             = far_errors s
               @ (if link_status drv (Suc (next_name s)) then []
                  else [(FAR_RUNTIME_ERROR,
                           take 1023 (shader_info_log drv (Suc (Suc (next_name s))))),
                        (FAR_RUNTIME_ERROR,
                           take 1023 (program_info_log drv (Suc (next_name s))))])
         \<and> (\<not> link_status drv (Suc (next_name s)) \<longrightarrow>
              last_calls 4 (calls s')
              = [GetShaderInfoLog (Suc (Suc (next_name s))) 1024,
                 GetProgramInfoLog (Suc (next_name s)) 1024,
                 DeleteProgram (Suc (next_name s)),
                 DeleteShader (Suc (Suc (next_name s)))])"
  by (simp add: createPatchKernel_def Let_def maybe_delete_program
        compileKernel_eq [OF assms] compileKernel_world [OF assms]
        compileKernel_world_last_calls [OF assms] cachePatchUniformLocations_eq gl_simps)

lemma createSrcBufferTexture_eq:
  "\<exists>this' s'. createSrcBufferTexture this s = (this', s')
     \<and> stencilKernel this' = stencilKernel this
     \<and> patchKernel this' = patchKernel this
     \<and> srcBufferTexture this' \<noteq> 0
     \<and> far_errors s' = far_errors s"
  by (simp add: createSrcBufferTexture_def gl_simps)

subsection \<open>The outcomes of Compile\<close>

text \<open>
  With \<open>p1 = next_name s + 1\<close> the name of the stencil program, \<open>p1 + 1\<close> that of its
  shader, \<open>p2 = p1 + 2\<close> the name of the patch program and \<open>p2 + 1\<close> that of its shader.
\<close>

lemma Compile_outcomes:
  assumes "c_rem (offset dstDesc) (stride dstDesc) = Inr r"
  shows "\<exists>this' s'.
           Compile drv shaderSource srcDesc dstDesc this s
             = (Inr (link_status drv (Suc (next_name s))
                     \<and> link_status drv (Suc (Suc (Suc (next_name s))))), this', s')
         \<and> (\<not> link_status drv (Suc (next_name s)) \<longrightarrow>
               far_errors s'
               = far_errors s
                 @ [(FAR_RUNTIME_ERROR,
                       take 1023 (shader_info_log drv (Suc (Suc (next_name s))))),
                    (FAR_RUNTIME_ERROR,
                       take 1023 (program_info_log drv (Suc (next_name s))))]
             \<and> last_calls 4 (calls s')
               = [GetShaderInfoLog (Suc (Suc (next_name s))) 1024,
                  GetProgramInfoLog (Suc (next_name s)) 1024,
                  DeleteProgram (Suc (next_name s)),
                  DeleteShader (Suc (Suc (next_name s)))]
             \<and> program (stencilKernel this') = 0)
         \<and> (link_status drv (Suc (next_name s))
             \<and> \<not> link_status drv (Suc (Suc (Suc (next_name s)))) \<longrightarrow>
               far_errors s'
               = far_errors s
                 @ [(FAR_RUNTIME_ERROR,
                       take 1023 (shader_info_log drv (Suc (Suc (Suc (Suc (next_name s))))))),
                    (FAR_RUNTIME_ERROR,
                       take 1023 (program_info_log drv (Suc (Suc (Suc (next_name s))))))]
             \<and> last_calls 4 (calls s')
               = [GetShaderInfoLog (Suc (Suc (Suc (Suc (next_name s))))) 1024,
                  GetProgramInfoLog (Suc (Suc (Suc (next_name s)))) 1024,
                  DeleteProgram (Suc (Suc (Suc (next_name s)))),
                  DeleteShader (Suc (Suc (Suc (Suc (next_name s)))))]
             \<and> program (stencilKernel this') = Suc (next_name s)
             \<and> program (patchKernel this') = 0)
         \<and> (link_status drv (Suc (next_name s))
             \<and> link_status drv (Suc (Suc (Suc (next_name s)))) \<longrightarrow>
               far_errors s' = far_errors s
             \<and> program (stencilKernel this') = Suc (next_name s)
             \<and> program (patchKernel this') = Suc (Suc (Suc (next_name s)))
             \<and> srcBufferTexture this' \<noteq> 0)"
proof -
  from createStencilKernel_eq [OF assms, of drv shaderSource srcDesc this s]
  obtain this1 s1 where
    k1: "createStencilKernel drv shaderSource srcDesc dstDesc this s
           = (Inr (link_status drv (Suc (next_name s))), this1, s1)"
    and p1: "program (stencilKernel this1)
           = (if link_status drv (Suc (next_name s)) then Suc (next_name s) else 0)"
    and n1: "next_name s1 = Suc (Suc (next_name s))"
    and e1: "far_errors s1
           = far_errors s
             @ (if link_status drv (Suc (next_name s)) then []
                else [(FAR_RUNTIME_ERROR,
                         take 1023 (shader_info_log drv (Suc (Suc (next_name s))))),
                      (FAR_RUNTIME_ERROR,
                         take 1023 (program_info_log drv (Suc (next_name s))))])"
    and c1: "\<not> link_status drv (Suc (next_name s)) \<longrightarrow>
            last_calls 4 (calls s1)
            = [GetShaderInfoLog (Suc (Suc (next_name s))) 1024,
               GetProgramInfoLog (Suc (next_name s)) 1024,
               DeleteProgram (Suc (next_name s)),
               DeleteShader (Suc (Suc (next_name s)))]"
    by blast
  show ?thesis
  proof (cases "link_status drv (Suc (next_name s))")
    case False
    with k1 p1 e1 c1 show ?thesis
      by (simp add: Compile_def)
  next
    case True
    from createPatchKernel_eq [OF assms, of drv shaderSource srcDesc this1 s1]
    obtain this2 s2 where
      k2: "createPatchKernel drv shaderSource srcDesc dstDesc this1 s1
             = (Inr (link_status drv (Suc (Suc (Suc (next_name s))))), this2, s2)"
      and p2: "program (patchKernel this2)
             = (if link_status drv (Suc (Suc (Suc (next_name s))))
                then Suc (Suc (Suc (next_name s))) else 0)"
      and q2: "program (stencilKernel this2) = program (stencilKernel this1)"
      and e2: "far_errors s2
             = far_errors s1
               @ (if link_status drv (Suc (Suc (Suc (next_name s)))) then []
                  else [(FAR_RUNTIME_ERROR,
                           take 1023 (shader_info_log drv (Suc (Suc (Suc (Suc (next_name s))))))),
                        (FAR_RUNTIME_ERROR,
                           take 1023 (program_info_log drv (Suc (Suc (Suc (next_name s))))))])"
      and c2: "\<not> link_status drv (Suc (Suc (Suc (next_name s)))) \<longrightarrow>
              last_calls 4 (calls s2)
              = [GetShaderInfoLog (Suc (Suc (Suc (Suc (next_name s))))) 1024,
                 GetProgramInfoLog (Suc (Suc (Suc (next_name s)))) 1024,
                 DeleteProgram (Suc (Suc (Suc (next_name s)))),
                 DeleteShader (Suc (Suc (Suc (Suc (next_name s)))))]"
      unfolding n1 by blast
    show ?thesis
    proof (cases "link_status drv (Suc (Suc (Suc (next_name s))))")
      case False
      with True k1 p1 e1 k2 p2 q2 e2 c2 show ?thesis
        by (simp add: Compile_def)
    next
      case link2: True
      from createSrcBufferTexture_eq [of this2 s2]
      obtain this3 s3 where
        k3: "createSrcBufferTexture this2 s2 = (this3, s3)"
        and q3: "stencilKernel this3 = stencilKernel this2" "patchKernel this3 = patchKernel this2"
          "srcBufferTexture this3 \<noteq> 0"
        and e3: "far_errors s3 = far_errors s2"
        by blast
      with True link2 k1 p1 e1 k2 p2 q2 e2 show ?thesis
        by (simp add: Compile_def)
    qed
  qed
qed

text \<open>
  Claim C3, as amended. For every call of \<open>Compile\<close> with a destination descriptor for
  which the remainder \<open>dstDesc.offset % dstDesc.stride\<close> is defined (\<open>dstDesc.stride \<noteq> 0\<close>,
  and not \<open>dstDesc.offset = INT_MIN\<close> with \<open>dstDesc.stride = -1\<close>), so that \<open>compileKernel\<close>
  reaches the link: whenever a kernel program fails to link, the first
  1023 characters of the driver's shader info log and the first 1023 characters of its
  program info log are each passed to \<open>Far::Error\<close> as \<open>FAR_RUNTIME_ERROR\<close>, in this
  order, the failed program is deleted (the call ends with the two log queries of buffer
  size 1024, \<open>glDeleteProgram\<close> of the program and \<open>glDeleteShader\<close>), the kernel's
  program is left 0, and \<open>Compile\<close> returns false; when both kernels link, \<open>Compile\<close>
  returns true, reports nothing and leaves both programs set.
\<close>

theorem Compile_link_outcomes:
  assumes "stride dstDesc \<noteq> 0"
    and "\<not> (sint (offset dstDesc) = - (2 ^ 31) \<and> sint (stride dstDesc) = - 1)"
  shows "(\<not> link_status drv (Suc (next_name s)) \<longrightarrow>
            fst (Compile drv shaderSource srcDesc dstDesc this s) = Inr False
          \<and> far_errors (snd (snd (Compile drv shaderSource srcDesc dstDesc this s)))
            = far_errors s
              @ [(FAR_RUNTIME_ERROR,
                    take 1023 (shader_info_log drv (Suc (Suc (next_name s))))),
                 (FAR_RUNTIME_ERROR,
                    take 1023 (program_info_log drv (Suc (next_name s))))]
          \<and> last_calls 4 (calls (snd (snd (Compile drv shaderSource srcDesc dstDesc this s))))
            = [GetShaderInfoLog (Suc (Suc (next_name s))) 1024,
               GetProgramInfoLog (Suc (next_name s)) 1024,
               DeleteProgram (Suc (next_name s)),
               DeleteShader (Suc (Suc (next_name s)))]
          \<and> program (stencilKernel (fst (snd (Compile drv shaderSource srcDesc dstDesc this s))))
            = 0)
       \<and> (link_status drv (Suc (next_name s))
          \<and> \<not> link_status drv (Suc (Suc (Suc (next_name s)))) \<longrightarrow>
            fst (Compile drv shaderSource srcDesc dstDesc this s) = Inr False
          \<and> far_errors (snd (snd (Compile drv shaderSource srcDesc dstDesc this s)))
            = far_errors s
              @ [(FAR_RUNTIME_ERROR,
                    take 1023 (shader_info_log drv (Suc (Suc (Suc (Suc (next_name s))))))),
                 (FAR_RUNTIME_ERROR,
                    take 1023 (program_info_log drv (Suc (Suc (Suc (next_name s))))))]
          \<and> last_calls 4 (calls (snd (snd (Compile drv shaderSource srcDesc dstDesc this s))))
            = [GetShaderInfoLog (Suc (Suc (Suc (Suc (next_name s))))) 1024,
               GetProgramInfoLog (Suc (Suc (Suc (next_name s)))) 1024,
               DeleteProgram (Suc (Suc (Suc (next_name s)))),
               DeleteShader (Suc (Suc (Suc (Suc (next_name s)))))]
          \<and> program (patchKernel (fst (snd (Compile drv shaderSource srcDesc dstDesc this s))))
            = 0)
       \<and> (link_status drv (Suc (next_name s))
          \<and> link_status drv (Suc (Suc (Suc (next_name s)))) \<longrightarrow>
            fst (Compile drv shaderSource srcDesc dstDesc this s) = Inr True
          \<and> far_errors (snd (snd (Compile drv shaderSource srcDesc dstDesc this s)))
            = far_errors s
          \<and> program (stencilKernel (fst (snd (Compile drv shaderSource srcDesc dstDesc this s))))
            = Suc (next_name s)
          \<and> program (patchKernel (fst (snd (Compile drv shaderSource srcDesc dstDesc this s))))
            = Suc (Suc (Suc (next_name s))))"
proof -
  from assms obtain r where "c_rem (offset dstDesc) (stride dstDesc) = Inr r"
    using c_rem_defined by blast
  from Compile_outcomes [OF this, of drv shaderSource srcDesc this s]
  obtain this' s' where
    "Compile drv shaderSource srcDesc dstDesc this s
       = (Inr (link_status drv (Suc (next_name s))
               \<and> link_status drv (Suc (Suc (Suc (next_name s))))), this', s')"
    and "\<not> link_status drv (Suc (next_name s)) \<longrightarrow>
           far_errors s'
           = far_errors s
             @ [(FAR_RUNTIME_ERROR,
                   take 1023 (shader_info_log drv (Suc (Suc (next_name s))))),
                (FAR_RUNTIME_ERROR,
                   take 1023 (program_info_log drv (Suc (next_name s))))]
         \<and> last_calls 4 (calls s')
           = [GetShaderInfoLog (Suc (Suc (next_name s))) 1024,
              GetProgramInfoLog (Suc (next_name s)) 1024,
              DeleteProgram (Suc (next_name s)),
              DeleteShader (Suc (Suc (next_name s)))]
         \<and> program (stencilKernel this') = 0"
    and "link_status drv (Suc (next_name s))
         \<and> \<not> link_status drv (Suc (Suc (Suc (next_name s)))) \<longrightarrow>
           far_errors s'
           = far_errors s
             @ [(FAR_RUNTIME_ERROR,
                   take 1023 (shader_info_log drv (Suc (Suc (Suc (Suc (next_name s))))))),
                (FAR_RUNTIME_ERROR,
                   take 1023 (program_info_log drv (Suc (Suc (Suc (next_name s))))))]
         \<and> last_calls 4 (calls s')
           = [GetShaderInfoLog (Suc (Suc (Suc (Suc (next_name s))))) 1024,
              GetProgramInfoLog (Suc (Suc (Suc (next_name s)))) 1024,
              DeleteProgram (Suc (Suc (Suc (next_name s)))),
              DeleteShader (Suc (Suc (Suc (Suc (next_name s)))))]
         \<and> program (stencilKernel this') = Suc (next_name s)
         \<and> program (patchKernel this') = 0"
    and "link_status drv (Suc (next_name s))
         \<and> link_status drv (Suc (Suc (Suc (next_name s)))) \<longrightarrow>
           far_errors s' = far_errors s
         \<and> program (stencilKernel this') = Suc (next_name s)
         \<and> program (patchKernel this') = Suc (Suc (Suc (next_name s)))
         \<and> srcBufferTexture this' \<noteq> 0"
    by blast
  then show ?thesis
    by simp
qed

text \<open>
  The theorem at work, from a new evaluator in a new context: a driver that links
  nothing, one that links the stencil kernel only, and one that links both.
\<close>

theorem Compile_link_outcomes_witness:
  "fst (Compile failing_driver ''void main() {}'' packed_desc interleaved_desc
          new_GLXFBEvaluator initial_world) = Inr False
   \<and> far_errors (snd (snd (Compile failing_driver ''void main() {}'' packed_desc
          interleaved_desc new_GLXFBEvaluator initial_world)))
     = [(FAR_RUNTIME_ERROR, ''0:1: syntax error''), (FAR_RUNTIME_ERROR, ''link failed'')]
   \<and> last_calls 4 (calls (snd (snd (Compile failing_driver ''void main() {}'' packed_desc
          interleaved_desc new_GLXFBEvaluator initial_world))))
     = [GetShaderInfoLog 2 1024, GetProgramInfoLog 1 1024, DeleteProgram 1, DeleteShader 2]
   \<and> fst (Compile patch_failing_driver ''void main() {}'' packed_desc interleaved_desc
          new_GLXFBEvaluator initial_world) = Inr False
   \<and> far_errors (snd (snd (Compile patch_failing_driver ''void main() {}'' packed_desc
          interleaved_desc new_GLXFBEvaluator initial_world)))
     = [(FAR_RUNTIME_ERROR, ''0:1: syntax error''), (FAR_RUNTIME_ERROR, ''link failed'')]
   \<and> last_calls 4 (calls (snd (snd (Compile patch_failing_driver ''void main() {}''
          packed_desc interleaved_desc new_GLXFBEvaluator initial_world))))
     = [GetShaderInfoLog 4 1024, GetProgramInfoLog 3 1024, DeleteProgram 3, DeleteShader 4]
   \<and> fst (Compile linking_driver ''void main() {}'' packed_desc interleaved_desc
          new_GLXFBEvaluator initial_world) = Inr True
   \<and> far_errors (snd (snd (Compile linking_driver ''void main() {}'' packed_desc
          interleaved_desc new_GLXFBEvaluator initial_world))) = []"
proof -
  have d: "stride interleaved_desc \<noteq> 0"
    by (simp add: interleaved_desc_def)
  have m: "\<not> (sint (offset interleaved_desc) = - (2 ^ 31)
              \<and> sint (stride interleaved_desc) = - 1)"
    by (simp add: interleaved_desc_def)
  have n: "next_name initial_world = 0" "far_errors initial_world = []"
    by (simp_all add: initial_world_def)
  have f: "\<not> link_status failing_driver (Suc 0)"
      "shader_info_log failing_driver (Suc (Suc 0)) = ''0:1: syntax error''"
      "program_info_log failing_driver (Suc 0) = ''link failed''"
    by (simp_all add: failing_driver_def)
  have p: "link_status patch_failing_driver (Suc 0)"
      "\<not> link_status patch_failing_driver (Suc (Suc (Suc 0)))"
      "shader_info_log patch_failing_driver (Suc (Suc (Suc (Suc 0)))) = ''0:1: syntax error''"
      "program_info_log patch_failing_driver (Suc (Suc (Suc 0))) = ''link failed''"
    by (simp_all add: patch_failing_driver_def)
  have l: "link_status linking_driver (Suc 0)" "link_status linking_driver (Suc (Suc (Suc 0)))"
    by (simp_all add: linking_driver_def)
  have names: "Suc (Suc 0) = 2" "Suc (Suc (Suc 0)) = 3" "Suc (Suc (Suc (Suc 0))) = 4"
    by simp_all
  from
    Compile_link_outcomes [OF d m, of failing_driver initial_world "''void main() {}''"
      packed_desc new_GLXFBEvaluator]
    Compile_link_outcomes [OF d m, of patch_failing_driver initial_world "''void main() {}''"
      packed_desc new_GLXFBEvaluator]
    Compile_link_outcomes [OF d m, of linking_driver initial_world "''void main() {}''"
      packed_desc new_GLXFBEvaluator]
  show ?thesis
    unfolding n using f p l by (simp add: names)
qed

text \<open>
  The claim as it stands, "forwarded verbatim", fails for a log that does not fit the
  buffer of 1024 bytes: of a shader info log of 1024 characters the last one is not
  forwarded (nor are the last 977 of a program info log of 2000).
\<close>

theorem Compile_long_logs_cut:
  "\<not> link_status long_log_driver 1
   \<and> shader_info_log long_log_driver 2 = replicate 1024 (CHR ''x'')
   \<and> program_info_log long_log_driver 1 = replicate 2000 (CHR ''y'')
   \<and> (\<exists>this' s'. Compile long_log_driver ''void main() {}'' packed_desc interleaved_desc
          new_GLXFBEvaluator initial_world = (Inr False, this', s')
        \<and> far_errors s'
          = [(FAR_RUNTIME_ERROR, replicate 1023 (CHR ''x'')),
             (FAR_RUNTIME_ERROR, replicate 1023 (CHR ''y''))])
   \<and> replicate 1023 (CHR ''x'') \<noteq> shader_info_log long_log_driver 2
   \<and> replicate 1023 (CHR ''y'') \<noteq> program_info_log long_log_driver 1"
proof -
  have d: "c_rem (offset interleaved_desc) (stride interleaved_desc) = Inr 1"
    by (simp add: c_rem_def interleaved_desc_def)
  have n: "next_name initial_world = 0" "far_errors initial_world = []"
    by (simp_all add: initial_world_def)
  have f: "\<not> link_status long_log_driver (Suc 0)"
      "shader_info_log long_log_driver (Suc (Suc 0)) = replicate 1024 (CHR ''x'')"
      "program_info_log long_log_driver (Suc 0) = replicate 2000 (CHR ''y'')"
    by (simp_all add: long_log_driver_def)
  have x: "replicate 1023 (CHR ''x'') \<noteq> replicate 1024 (CHR ''x'')"
    by simp
  have y: "replicate 1023 (CHR ''y'') \<noteq> replicate 2000 (CHR ''y'')"
    by simp
  from Compile_outcomes [OF d, of long_log_driver "''void main() {}''" packed_desc
      new_GLXFBEvaluator initial_world]
  have "\<exists>this' s'. Compile long_log_driver ''void main() {}'' packed_desc interleaved_desc
          new_GLXFBEvaluator initial_world = (Inr False, this', s')
        \<and> far_errors s'
          = [(FAR_RUNTIME_ERROR, replicate 1023 (CHR ''x'')),
             (FAR_RUNTIME_ERROR, replicate 1023 (CHR ''y''))]"
    unfolding n using f by auto
  with x y show ?thesis
    by (simp add: long_log_driver_def)
qed


text \<open>
  Without the remainder \<open>dstDesc.offset % dstDesc.stride\<close> the call of \<open>Compile\<close> does not
  return: not for the stride 0, and not for \<open>INT_MIN % -1\<close>, where the stride is not 0.
\<close>

lemma Compile_undefined_remainder:
  assumes "c_rem (offset dstDesc) (stride dstDesc) = Inl e"
  shows "fst (Compile drv shaderSource srcDesc dstDesc this s) = Inl e"
proof -
  have "compileKernel drv shaderSource srcDesc dstDesc kernelDefine s'
        = (Inl e, compileKernel_world drv shaderSource srcDesc dstDesc kernelDefine s')"
    for kernelDefine s'
    using compileKernel_undefined_remainder [OF assms]
    by (simp add: compileKernel_world_def prod_eq_iff)
  then show ?thesis
    by (simp add: Compile_def createStencilKernel_def Let_def)
qed

lemma Compile_remainder_overflow:
  "fst (Compile linking_driver ''void main() {}'' packed_desc zero_desc new_GLXFBEvaluator
          initial_world) = Inl DivisionByZero
   \<and> stride overflow_desc \<noteq> 0
   \<and> fst (Compile linking_driver ''void main() {}'' packed_desc overflow_desc
          new_GLXFBEvaluator initial_world) = Inl IntegerOverflow"
proof -
  have "c_rem (offset zero_desc) (stride zero_desc) = Inl DivisionByZero"
    by (simp add: c_rem_def zero_desc_def)
  moreover have "c_rem (offset overflow_desc) (stride overflow_desc) = Inl IntegerOverflow"
    by (simp add: c_rem_def overflow_desc_def)
  ultimately show ?thesis
    by (simp add: Compile_undefined_remainder overflow_desc_def)
qed

section \<open>The uploads of GLStencilTableTBO\<close>

subsection \<open>createGLTextureBuffer\<close>

lemma createGLTextureBuffer_empty:
  "createGLTextureBuffer drv [] type s = (Inl OutOfRange, s)"
  by (simp add: createGLTextureBuffer_def)

text \<open>A vector of fewer than \<open>2^29\<close> elements is stored whole: its byte count fits an \<open>int\<close>.\<close>

lemma sint_byte_count:
  assumes "n < 2 ^ 31"
  shows "sint (scast (word_of_nat n :: GLint) :: GLsizeiptr) = int n"
proof -
  have "sint (word_of_nat n :: GLint) = signed_take_bit 31 (int n)"
    unfolding signed_of_nat by simp
  also have "\<dots> = int n"
    using assms by (simp add: signed_take_bit_int_eq_self)
  finally have n: "sint (word_of_nat n :: GLint) = int n" .
  have "sint (scast (word_of_nat n :: GLint) :: GLsizeiptr) = sint (word_of_nat n :: GLint)"
    by (rule sint_up_scast) (simp add: is_up)
  with n show ?thesis
    by simp
qed

lemma stored_whole:
  assumes "length src < 2 ^ 29"
  shows "stored (scast (word_of_nat (length src) * word_of_nat sizeof32 :: GLint)) src
         = Some src"
proof -
  have "length src * sizeof32 < 2 ^ 31"
    using assms by (simp add: sizeof32_def)
  then have "sint (scast (word_of_nat (length src * sizeof32) :: GLint) :: GLsizeiptr)
             = int (length src * sizeof32)"
    by (rule sint_byte_count)
  then have "sint (scast (word_of_nat (length src) * word_of_nat sizeof32 :: GLint)
               :: GLsizeiptr) = int (length src * sizeof32)"
    by (simp only: of_nat_mult)
  then show ?thesis
    by (simp add: stored_def sizeof32_def)
qed

lemma createGLTextureBuffer_eq:
  assumes "src \<noteq> []"
  shows "createGLTextureBuffer drv src type s
         = (Inr (Suc (Suc (next_name s))), createGLTextureBuffer_world drv src type s)"
  using assms
  by (simp add: createGLTextureBuffer_world_def createGLTextureBuffer_def Let_def gl_simps
        split: prod.splits)

lemma createGLTextureBuffer_world:
  assumes "src \<noteq> []"
  shows "next_name (createGLTextureBuffer_world drv src type s) = Suc (Suc (next_name s))"
    and "texture_store (createGLTextureBuffer_world drv src type s)
           = (texture_store s)(Suc (Suc (next_name s)) \<mapsto> (type, Suc (next_name s)))"
    and "length (filter is_upload_call (calls (createGLTextureBuffer_world drv src type s)))
           = Suc (length (filter is_upload_call (calls s)))"
    and "length src < 2 ^ 29 \<Longrightarrow>
         buffer_store (createGLTextureBuffer_world drv src type s)
           = (buffer_store s)(Suc (next_name s) \<mapsto> src)"
  using assms
  by (simp_all add: createGLTextureBuffer_world_def createGLTextureBuffer_def Let_def gl_simps
        stored_whole is_upload_call_def split: prod.splits)

text \<open>
  Claim C5, as amended. For every stencil table with \<open>GetNumStencils() > 0\<close> whose four
  vectors (sizes, offsets, control indices, weights) are not empty and have fewer than
  \<open>2^29\<close> elements each, the constructor uploads exactly four lookup tables as buffer
  textures: it issues four buffer uploads, and it returns four distinct nonzero handles
  of which \<open>_sizes\<close> shows the whole sizes vector as \<open>GL_R32UI\<close>, \<open>_offsets\<close> the whole
  offsets vector as \<open>GL_R32I\<close>, \<open>_indices\<close> the whole control indices vector as
  \<open>GL_R32I\<close> and \<open>_weights\<close> the whole weights vector as \<open>GL_R32F\<close>; no other buffer
  texture has changed.
\<close>

theorem new_GLStencilTableTBO_uploads:
  assumes "0 < sint (GetNumStencils stencilTable)"
    and "GetSizes stencilTable \<noteq> []"
    and "GetOffsets stencilTable \<noteq> []"
    and "GetControlIndices stencilTable \<noteq> []"
    and "GetWeights stencilTable \<noteq> []"
    and "length (GetSizes stencilTable) < 2 ^ 29"
    and "length (GetOffsets stencilTable) < 2 ^ 29"
    and "length (GetControlIndices stencilTable) < 2 ^ 29"
    and "length (GetWeights stencilTable) < 2 ^ 29"
  shows "\<exists>tbo s'.
           new_GLStencilTableTBO drv stencilTable s = (Inr tbo, s')
         \<and> numStencils tbo = GetNumStencils stencilTable
         \<and> texture_contents s' (sizes tbo) = Some (GL_R32UI, GetSizes stencilTable)
         \<and> texture_contents s' (offsets tbo) = Some (GL_R32I, GetOffsets stencilTable)
         \<and> texture_contents s' (indices tbo) = Some (GL_R32I, GetControlIndices stencilTable)
         \<and> texture_contents s' (weights tbo) = Some (GL_R32F, GetWeights stencilTable)
         \<and> distinct [0, sizes tbo, offsets tbo, indices tbo, weights tbo]
         \<and> length (filter is_upload_call (calls s'))
           = length (filter is_upload_call (calls s)) + 4
         \<and> dom (texture_store s')
           = dom (texture_store s) \<union> {sizes tbo, offsets tbo, indices tbo, weights tbo}
         \<and> list_all (\<lambda>texture. texture_store s' texture = texture_store s texture)
              (filter (\<lambda>texture. texture \<notin> {sizes tbo, offsets tbo, indices tbo, weights tbo})
                 [0..<Suc (next_name s')])"
  using assms
  by (simp add: new_GLStencilTableTBO_def Let_def createGLTextureBuffer_eq
        createGLTextureBuffer_world texture_contents_def list_all_iff) blast

theorem new_GLStencilTableTBO_uploads_witness:
  "\<exists>tbo s'.
     new_GLStencilTableTBO linking_driver two_stencils_table initial_world = (Inr tbo, s')
     \<and> texture_contents s' (sizes tbo) = Some (GL_R32UI, [1, 2])
     \<and> texture_contents s' (offsets tbo) = Some (GL_R32I, [0, 1])
     \<and> texture_contents s' (indices tbo) = Some (GL_R32I, [5, 6, 7])
     \<and> texture_contents s' (weights tbo) = Some (GL_R32F, [0x3F800000, 0x3F000000, 0x3F000000])
     \<and> distinct [0, sizes tbo, offsets tbo, indices tbo, weights tbo]
     \<and> length (filter is_upload_call (calls s')) = 4"
proof -
  have "0 < sint (GetNumStencils two_stencils_table)"
    by (simp add: two_stencils_table_def)
  from new_GLStencilTableTBO_uploads [OF this, of linking_driver initial_world]
  show ?thesis
    by (simp add: two_stencils_table_def initial_world_def) blast
qed

text \<open>
  The claim as it stands, for every table with \<open>GetNumStencils() > 0\<close>, fails when one of
  the four vectors is empty: \<open>src.at(0)\<close> throws \<open>std::out_of_range\<close> and the constructor
  does not complete. So it is for a table of one stencil without entries (the vectors of
  indices and weights are empty; two tables have been uploaded by then), and for a table
  whose offsets have not been generated (one table has been uploaded by then).
\<close>

theorem new_GLStencilTableTBO_empty_vector:
  "0 < sint (GetNumStencils zero_size_stencil_table)
   \<and> fst (new_GLStencilTableTBO linking_driver zero_size_stencil_table initial_world)
       = Inl OutOfRange
   \<and> length (filter is_upload_call
        (calls (snd (new_GLStencilTableTBO linking_driver zero_size_stencil_table
           initial_world)))) = 2
   \<and> 0 < sint (GetNumStencils no_offsets_table)
   \<and> fst (new_GLStencilTableTBO linking_driver no_offsets_table initial_world)
       = Inl OutOfRange
   \<and> length (filter is_upload_call
        (calls (snd (new_GLStencilTableTBO linking_driver no_offsets_table initial_world))))
       = 1"
  by (simp add: new_GLStencilTableTBO_def Let_def zero_size_stencil_table_def
        no_offsets_table_def createGLTextureBuffer_eq createGLTextureBuffer_empty
        createGLTextureBuffer_world initial_world_def)

end
